theory Spec2Isabelle
  imports Complex_Main
begin

section \<open>JavaScript numbers\<close>

text \<open>
  A JavaScript number is an IEEE 754 double. It is modelled as the rational number it
  denotes, and the arithmetic of the language as exact arithmetic followed by rounding to
  the nearest double, ties to even. \<open>double x\<close> is that rounding: the quotient \<open>p / q\<close> of
  \<open>\<bar>x\<bar>\<close> is brought into the range from \<open>2^52\<close> up to \<open>2^53\<close> by powers of two, rounded
  to an integer with ties to even, and scaled back. The exponent stops at \<open>-1074\<close>, where
  the subnormal numbers begin; the counter of \<open>scale\<close> only bounds the recursion and is
  not used up by any value in the range of the doubles. \<open>dadd\<close>, \<open>dsub\<close> and \<open>dmul\<close> are
  \<open>+\<close>, \<open>-\<close> and \<open>*\<close> of the language on doubles. A decimal literal of the source such
  as \<open>0.02\<close> is \<open>double (2 / 100)\<close>. Overflow to \<open>Infinity\<close> and \<open>NaN\<close> are left out:
  beyond the largest double the model goes on with the rounded finite value.
\<close>

definition round_half_even :: "int \<Rightarrow> int \<Rightarrow> int" where
  "round_half_even p q =
     (let f = p div q; r = p mod q
      in if 2 * r < q then f
         else if q < 2 * r then f + 1
         else if even f then f else f + 1)"

fun scale :: "nat \<Rightarrow> int \<Rightarrow> int \<Rightarrow> int \<Rightarrow> int \<times> int \<times> int" where
  "scale 0 p q e = (p, q, e)"
| "scale (Suc n) p q e =
     (if 9007199254740992 * q \<le> p then scale n p (2 * q) (e + 1)
      else if p < 4503599627370496 * q \<and> - 1074 < e then scale n (2 * p) q (e - 1)
      else (p, q, e))"

definition pow2 :: "int \<Rightarrow> rat" where
  "pow2 e = (if 0 \<le> e then 2 ^ nat e else 1 / 2 ^ nat (- e))"

definition double :: "rat \<Rightarrow> rat" where
  "double x =
     (if x = 0 then 0
      else (case quotient_of \<bar>x\<bar> of
              (p0, q0) \<Rightarrow>
                (case scale 2200 p0 q0 0 of
                   (p, q, e) \<Rightarrow> sgn x * of_int (round_half_even p q) * pow2 e)))"

definition dadd :: "rat \<Rightarrow> rat \<Rightarrow> rat" where
  "dadd x y = double (x + y)"

definition dsub :: "rat \<Rightarrow> rat \<Rightarrow> rat" where
  "dsub x y = double (x - y)"

definition dmul :: "rat \<Rightarrow> rat \<Rightarrow> rat" where
  "dmul x y = double (x * y)"

section \<open>Wallet ledger primitives (models/Wallet.js)\<close>

text \<open>
  A wallet document is a record. A method that mutates \<open>this\<close> and ends in
  \<open>return this.save()\<close> returns the document it has saved, or the error it throws as the
  left injection: its own \<open>Error\<close>, or the validation error of \<open>save()\<close>, which checks
  the \<open>min: 0\<close> validators of the three balances on the document in memory (\<open>nonneg\<close>).
  Writing the saved paths to the collection is done by the caller, in the store model
  further down.
\<close>

record balances =
  available :: rat
  locked :: rat
  pending :: rat

record wallet =
  wallet_id :: string
  owner_id :: string
  currency :: string
  balances :: balances

datatype error =
    InsufficientFunds
  | InsufficientLockedFunds
  | InsufficientAvailableFunds
  | ConditionNotFound
  | ValidationError
  | DuplicateKey
  | TypeError

definition nonneg :: "wallet \<Rightarrow> bool" where
  "nonneg w \<longleftrightarrow>
     0 \<le> available (balances w) \<and> 0 \<le> locked (balances w) \<and> 0 \<le> pending (balances w)"

definition Wallet_save :: "wallet \<Rightarrow> error + wallet" where
  "Wallet_save w = (if nonneg w then Inr w else Inl ValidationError)"

definition hasSufficientFunds :: "wallet \<Rightarrow> rat \<Rightarrow> bool \<Rightarrow> bool" where
  "hasSufficientFunds w amount includeLocked =
     (if includeLocked
      then dadd (available (balances w)) (locked (balances w)) \<ge> amount
      else available (balances w) \<ge> amount)"

definition lockFunds :: "wallet \<Rightarrow> rat \<Rightarrow> error + wallet" where
  "lockFunds w amount =
     (if \<not> hasSufficientFunds w amount False then Inl InsufficientFunds
      else Wallet_save (w\<lparr>balances := (balances w)
                  \<lparr>available := dsub (available (balances w)) amount,
                   locked := dadd (locked (balances w)) amount\<rparr>\<rparr>))"

definition unlockFunds :: "wallet \<Rightarrow> rat \<Rightarrow> error + wallet" where
  "unlockFunds w amount =
     (if locked (balances w) < amount then Inl InsufficientLockedFunds
      else Wallet_save (w\<lparr>balances := (balances w)
                  \<lparr>locked := dsub (locked (balances w)) amount,
                   available := dadd (available (balances w)) amount\<rparr>\<rparr>))"

definition releaseFunds :: "wallet \<Rightarrow> rat \<Rightarrow> error + wallet" where
  "releaseFunds w amount =
     (if locked (balances w) < amount then Inl InsufficientLockedFunds
      else Wallet_save (w\<lparr>balances := (balances w)
                  \<lparr>locked := dsub (locked (balances w)) amount,
                   available := dadd (available (balances w)) amount\<rparr>\<rparr>))"

definition deductFunds :: "wallet \<Rightarrow> rat \<Rightarrow> error + wallet" where
  "deductFunds w amount =
     (if available (balances w) < amount then Inl InsufficientAvailableFunds
      else Wallet_save (w\<lparr>balances := (balances w)
                  \<lparr>available := dsub (available (balances w)) amount\<rparr>\<rparr>))"

definition addFunds :: "wallet \<Rightarrow> rat \<Rightarrow> error + wallet" where
  "addFunds w amount =
     Wallet_save (w\<lparr>balances := (balances w)
                  \<lparr>available := dadd (available (balances w)) amount\<rparr>\<rparr>)"

section \<open>Payout routing (payoutsController: selectPaymentRail)\<close>

record bank_account =
  account_number :: string
  bank_code :: string

record destination =
  dest_type :: string
  phone :: "string option"
  dest_bank_account :: "bank_account option"
  dest_wallet_id :: "string option"
  recipient_name :: "string option"

record routing =
  rail :: string
  fee :: rat
  instant :: bool

definition selectPaymentRail :: "destination \<Rightarrow> rat \<Rightarrow> string \<Rightarrow> routing" where
  "selectPaymentRail destination amt ccy =
     (if dest_type destination = ''wallet''
      then \<lparr>rail = ''internal'', fee = 0, instant = True\<rparr>
      else if dest_type destination = ''mpesa''
      then (if amt \<le> 250000
            then \<lparr>rail = ''mpesa_b2c'', fee = amt * (15 / 1000), instant = True\<rparr>
            else \<lparr>rail = ''mpesa_corporate'', fee = 100, instant = False\<rparr>)
      else if dest_type destination = ''bank''
      then (if ccy = ''KES'' \<and> amt < 999999
            then \<lparr>rail = ''pesalink'', fee = 50, instant = True\<rparr>
            else \<lparr>rail = ''rtgs'', fee = 150, instant = False\<rparr>)
      else \<lparr>rail = ''unknown'', fee = 0, instant = False\<rparr>)"

section \<open>Webhook delivery with retry (services/webhookService.js)\<close>

text \<open>
  The HTTP endpoint is the environment: \<open>post n\<close> is the outcome of the \<open>n\<close>-th call of
  \<open>axios.post\<close> made by one \<open>sendWebhook\<close> (counting from 0), \<open>Some status\<close> when the
  call returns and \<open>None\<close> when it throws. The loop state is the attempt counter of the
  source, the number of calls made so far, and the delays slept so far in milliseconds.
\<close>

definition maxRetries :: nat where
  "maxRetries = 3"

definition retryDelays :: "nat list" where
  "retryDelays = [5000, 15000, 45000]"

datatype webhook_result =
    Delivered nat nat
  | DeliveryFailed nat

function send_loop ::
  "(nat \<Rightarrow> nat option) \<Rightarrow> nat \<Rightarrow> nat \<Rightarrow> nat list \<Rightarrow> webhook_result \<times> nat \<times> nat list" where
  "send_loop post attempt posts sleeps =
     (if attempt < maxRetries
      then (case post posts of
              Some st \<Rightarrow> (Delivered (attempt + 1) st, posts + 1, sleeps)
            | None \<Rightarrow>
                (if attempt + 1 < maxRetries
                 then send_loop post (attempt + 1) (posts + 1)
                        (sleeps @ [retryDelays ! (attempt + 1 - 1)])
                 else send_loop post (attempt + 1) (posts + 1) sleeps))
      else (DeliveryFailed attempt, posts, sleeps))"
  by pat_completeness auto
termination
  by (relation "measure (\<lambda>(post, attempt, posts, sleeps). maxRetries - attempt)") auto

declare send_loop.simps [simp del]

definition sendWebhook :: "(nat \<Rightarrow> nat option) \<Rightarrow> webhook_result \<times> nat \<times> nat list" where
  "sendWebhook post = send_loop post 0 0 []"

section \<open>The routing fee as the handlers compute it\<close>

text \<open>
  \<open>selectPaymentRail\<close> above is the routing over exact rationals. The handlers compute
  with doubles, so the fee they take from it is the rounded product:
  \<open>selectPaymentRail_double\<close> is the same function with \<open>amount * 0.015\<close> in the
  arithmetic of the language. The comparisons and the flat fees are exact on doubles.
\<close>

definition selectPaymentRail_double :: "destination \<Rightarrow> rat \<Rightarrow> string \<Rightarrow> routing" where
  "selectPaymentRail_double destination amt ccy =
     (if dest_type destination = ''wallet''
      then \<lparr>rail = ''internal'', fee = 0, instant = True\<rparr>
      else if dest_type destination = ''mpesa''
      then (if amt \<le> 250000
            then \<lparr>rail = ''mpesa_b2c'', fee = dmul amt (double (15 / 1000)), instant = True\<rparr>
            else \<lparr>rail = ''mpesa_corporate'', fee = 100, instant = False\<rparr>)
      else if dest_type destination = ''bank''
      then (if ccy = ''KES'' \<and> amt < 999999
            then \<lparr>rail = ''pesalink'', fee = 50, instant = True\<rparr>
            else \<lparr>rail = ''rtgs'', fee = 150, instant = False\<rparr>)
      else \<lparr>rail = ''unknown'', fee = 0, instant = False\<rparr>)"

section \<open>Transaction documents (models/Transaction.js)\<close>

text \<open>
  A transaction document carries the paths of the schema that the handlers write and
  that \<open>save()\<close> validates. The constructor casts what it is given to the schema: a path
  the schema does not have (\<open>metadata.user_id\<close>, \<open>payment_details.provider_reference\<close>)
  is dropped and is not a field here; the currency is stored in upper case; a value that
  does not cast to the type of its path makes \<open>save()\<close> reject. Two paths are given
  objects by the handlers although the schema declares them as strings, so the document
  keeps what was passed: \<open>escrow_details.parties\<close>, whose \<open>payer\<close> and \<open>payee\<close> are a
  string (\<open>PartyName\<close>) or the sub-document of an escrow (\<open>PartyDocument\<close>, with its user
  and wallet id), and \<open>destination.payment_details.bank_account\<close>, which is the object
  of the request when present. Timestamps, references and descriptions are left out.
\<close>

datatype txn_status = Pending | Processing | Completed | Failed | Cancelled | Reversed

record fees =
  processing_fee :: rat
  platform_fee :: rat
  total_fee :: rat

datatype party = PartyName string | PartyDocument string string

record transaction =
  transaction_id :: string
  txn_type :: string
  status :: txn_status
  amount :: rat
  txn_currency :: string
  fees :: fees
  net_amount :: rat
  source_wallet_id :: "string option"
  source_payment_method :: "string option"
  destination_wallet_id :: "string option"
  destination_payment_method :: "string option"
  destination_bank_account :: "bank_account option"
  escrow_parties :: "(party \<times> party) option"
  failure_reason :: "string option"

definition uppercase :: "string \<Rightarrow> string" where
  "uppercase s =
     map (\<lambda>c. case map_of (zip ''abcdefghijklmnopqrstuvwxyz'' ''ABCDEFGHIJKLMNOPQRSTUVWXYZ'') c of
                 None \<Rightarrow> c
               | Some u \<Rightarrow> u) s"

definition transaction_types :: "string list" where
  "transaction_types =
     [''collection'', ''payout'', ''escrow_hold'', ''escrow_release'', ''refund'', ''fee'',
      ''transfer'']"

definition payment_methods :: "string list" where
  "payment_methods = [''mpesa'', ''card'', ''bank'', ''wallet'']"

definition payment_method_valid :: "string option \<Rightarrow> bool" where
  "payment_method_valid m = (case m of None \<Rightarrow> True | Some v \<Rightarrow> List.member payment_methods v)"

definition casts_to_String :: "party \<Rightarrow> bool" where
  "casts_to_String p = (case p of PartyName s \<Rightarrow> True | PartyDocument u w \<Rightarrow> False)"

text \<open>
  The validation that \<open>save()\<close> runs before the middleware: \<open>transaction_id\<close> and
  \<open>currency\<close> are required (an empty string does not pass), \<open>type\<close> and the two
  payment methods are in their \<open>enum\<close>, \<open>amount\<close> has \<open>min: 0\<close>, and no path holds a value
  that failed to cast: the parties are strings and there is no bank account object.
\<close>

definition Transaction_valid :: "transaction \<Rightarrow> bool" where
  "Transaction_valid t \<longleftrightarrow>
     transaction_id t \<noteq> []
   \<and> List.member transaction_types (txn_type t)
   \<and> 0 \<le> amount t
   \<and> txn_currency t \<noteq> []
   \<and> payment_method_valid (source_payment_method t)
   \<and> payment_method_valid (destination_payment_method t)
   \<and> destination_bank_account t = None
   \<and> (case escrow_parties t of
         None \<Rightarrow> True
       | Some (payer, payee) \<Rightarrow> casts_to_String payer \<and> casts_to_String payee)"

text \<open>
  The pre-save middleware. Its argument \<open>feesModified\<close> is the value of
  \<open>this.isModified('fees')\<close>: true for a document built by \<open>new Transaction\<close> with a
  \<open>fees\<close> object (every constructor call of the controllers passes one), false when a
  loaded or already saved document has only its status or processing fields changed.
  \<open>Transaction_save\<close> is \<open>save()\<close> on the document in memory: validation, then the
  middleware.
\<close>

definition pre_save :: "bool \<Rightarrow> transaction \<Rightarrow> transaction" where
  "pre_save feesModified t =
     (if feesModified
      then (let t1 = t\<lparr>fees := (fees t)
                        \<lparr>total_fee := dadd (processing_fee (fees t)) (platform_fee (fees t))\<rparr>\<rparr>
            in t1\<lparr>net_amount := dsub (amount t1) (total_fee (fees t1))\<rparr>)
      else t)"

definition Transaction_save :: "bool \<Rightarrow> transaction \<Rightarrow> error + transaction" where
  "Transaction_save feesModified t =
     (if Transaction_valid t then Inr (pre_save feesModified t) else Inl ValidationError)"

definition fee_invariant :: "transaction \<Rightarrow> bool" where
  "fee_invariant t \<longleftrightarrow>
     total_fee (fees t) = dadd (processing_fee (fees t)) (platform_fee (fees t))
   \<and> net_amount t = dsub (amount t) (total_fee (fees t))"

section \<open>Escrow documents (models/Escrow.js)\<close>

text \<open>
  The element of the \<open>conditions\<close> array is declared with a \<open>type: String\<close> key, which
  makes the array an array of strings: a stored condition is a string, the condition
  objects that \<open>createEscrow\<close> builds do not cast to it, and the array has no method
  \<open>id\<close>, so \<open>this.conditions.id(conditionId)\<close> throws a \<open>TypeError\<close> whatever it is given.
  A string has no property \<open>fulfilled\<close>, so \<open>conditions.every(c => c.fulfilled)\<close> is false
  on a non-empty array. \<open>save()\<close> validates the required identifiers and currency and the
  \<open>min: 0\<close> of the amount; an empty \<open>conditions\<close> array passes \<open>required\<close>, as it does
  from mongoose 5 on. \<open>this.metadata.refund_reason\<close> is not a path of the schema and is
  not stored. Timestamps are left out.
\<close>

datatype escrow_status =
  EscrowPending | Funded | Active | Released | Refunded | Disputed | Expired

record release_settings =
  auto_release :: bool
  auto_release_date :: "string option"
  require_all_conditions :: bool

record escrow_fees =
  escrow_fee :: rat
  escrow_processing_fee :: rat
  escrow_total_fee :: rat

record dispute =
  dispute_id :: string
  raised_by :: string
  reason :: string
  dispute_description :: string
  dispute_status :: string

record escrow =
  escrow_id :: string
  escrow_transaction_id :: string
  escrow_amount :: rat
  escrow_currency :: string
  payer_user_id :: string
  payer_wallet_id :: string
  payee_user_id :: string
  payee_wallet_id :: string
  conditions :: "string list"
  escrow_status :: escrow_status
  release_settings :: release_settings
  escrow_fees :: escrow_fees
  disputes :: "dispute list"

definition Escrow_valid :: "escrow \<Rightarrow> bool" where
  "Escrow_valid e \<longleftrightarrow>
     escrow_id e \<noteq> [] \<and> escrow_transaction_id e \<noteq> [] \<and> 0 \<le> escrow_amount e
   \<and> escrow_currency e \<noteq> []"

definition Escrow_save :: "escrow \<Rightarrow> error + escrow" where
  "Escrow_save e = (if Escrow_valid e then Inr e else Inl ValidationError)"

definition condition_fulfilled :: "string \<Rightarrow> bool" where
  "condition_fulfilled c = False"

definition allConditionsFulfilled :: "escrow \<Rightarrow> bool" where
  "allConditionsFulfilled e =
     (if length (conditions e) = 0 then True else list_all condition_fulfilled (conditions e))"

definition conditions_id :: "string list \<Rightarrow> string \<Rightarrow> error + string option" where
  "conditions_id cs conditionId = Inl TypeError"

definition Escrow_fund :: "escrow \<Rightarrow> error + escrow" where
  "Escrow_fund e = Escrow_save (e\<lparr>escrow_status := Funded\<rparr>)"

definition Escrow_activate :: "escrow \<Rightarrow> error + escrow" where
  "Escrow_activate e = Escrow_save (e\<lparr>escrow_status := Active\<rparr>)"

definition Escrow_release :: "escrow \<Rightarrow> error + escrow" where
  "Escrow_release e = Escrow_save (e\<lparr>escrow_status := Released\<rparr>)"

definition Escrow_refund :: "escrow \<Rightarrow> string option \<Rightarrow> error + escrow" where
  "Escrow_refund e why = Escrow_save (e\<lparr>escrow_status := Refunded\<rparr>)"

definition Escrow_fulfillCondition :: "escrow \<Rightarrow> string \<Rightarrow> string \<Rightarrow> error + escrow" where
  "Escrow_fulfillCondition e conditionId fulfilledBy =
     (case conditions_id (conditions e) conditionId of
        Inl err \<Rightarrow> Inl err
      | Inr None \<Rightarrow> Inl ConditionNotFound
      | Inr (Some c) \<Rightarrow>
          if allConditionsFulfilled e \<and> auto_release (release_settings e)
          then Escrow_release e
          else Escrow_save e)"


definition Escrow_raiseDispute ::
  "escrow \<Rightarrow> string \<Rightarrow> string \<Rightarrow> string \<Rightarrow> string \<Rightarrow> error + escrow" where
  "Escrow_raiseDispute e uuid raisedBy why descr =
     Escrow_save (e\<lparr>disputes := disputes e @
          [\<lparr>dispute_id = uuid, raised_by = raisedBy, reason = why,
            dispute_description = descr, dispute_status = ''open''\<rparr>],
       escrow_status := Disputed\<rparr>)"

section \<open>The document store\<close>

text \<open>
  The three collections are lists of documents in insertion order. \<open>findOne\<close> returns a
  copy of the first match. A new document that \<open>save()\<close> has accepted is appended, unless
  the unique index on its identifier turns it away (\<open>DuplicateKey\<close>); identifiers made by
  \<open>uuidv4\<close> are arguments of the operations. A loaded document that \<open>save()\<close> has
  accepted is written over the stored document it was loaded from, the first one with
  its identifier. For a wallet the write is by modified path, as \<open>save()\<close> does it: a
  balance that differs from the value the copy had when it was loaded or last saved is
  written, the others keep what is stored (\<open>releaseEscrow\<close> holds two copies of one
  wallet when payer and payee wallet coincide). Handlers hold one copy of a transaction
  or an escrow at a time, so writing the whole document is the same there.
\<close>

record db =
  wallets :: "wallet list"
  transactions :: "transaction list"
  escrows :: "escrow list"

fun replace_first :: "('a \<Rightarrow> bool) \<Rightarrow> 'a \<Rightarrow> 'a list \<Rightarrow> 'a list" where
  "replace_first P y [] = []"
| "replace_first P y (x # xs) = (if P x then y # xs else x # replace_first P y xs)"

fun update_first :: "('a \<Rightarrow> bool) \<Rightarrow> ('a \<Rightarrow> 'a) \<Rightarrow> 'a list \<Rightarrow> 'a list" where
  "update_first P f [] = []"
| "update_first P f (x # xs) = (if P x then f x # xs else x # update_first P f xs)"

definition findWallet :: "string \<Rightarrow> wallet list \<Rightarrow> wallet option" where
  "findWallet wid ws = find (\<lambda>w. wallet_id w = wid) ws"

definition findOwnedWallet :: "string \<Rightarrow> string \<Rightarrow> wallet list \<Rightarrow> wallet option" where
  "findOwnedWallet wid userId ws = find (\<lambda>w. wallet_id w = wid \<and> owner_id w = userId) ws"

definition write_balances :: "balances \<Rightarrow> balances \<Rightarrow> balances \<Rightarrow> balances" where
  "write_balances loaded saved stored =
     \<lparr>available = (if available saved \<noteq> available loaded then available saved
                    else available stored),
      locked = (if locked saved \<noteq> locked loaded then locked saved else locked stored),
      pending = (if pending saved \<noteq> pending loaded then pending saved else pending stored)\<rparr>"

definition saveWallet :: "wallet \<Rightarrow> wallet \<Rightarrow> db \<Rightarrow> db" where
  "saveWallet loaded w d =
     d\<lparr>wallets := update_first (\<lambda>x. wallet_id x = wallet_id w)
          (\<lambda>x. x\<lparr>balances := write_balances (balances loaded) (balances w) (balances x)\<rparr>)
          (wallets d)\<rparr>"

definition findTransaction :: "string \<Rightarrow> transaction list \<Rightarrow> transaction option" where
  "findTransaction tid ts = find (\<lambda>t. transaction_id t = tid) ts"

definition insertTransaction :: "transaction \<Rightarrow> db \<Rightarrow> error + db" where
  "insertTransaction t d =
     (if findTransaction (transaction_id t) (transactions d) \<noteq> None then Inl DuplicateKey
      else Inr (d\<lparr>transactions := transactions d @ [t]\<rparr>))"

definition saveTransaction :: "transaction \<Rightarrow> db \<Rightarrow> db" where
  "saveTransaction t d =
     d\<lparr>transactions := replace_first (\<lambda>x. transaction_id x = transaction_id t) t (transactions d)\<rparr>"

definition findEscrow :: "string \<Rightarrow> escrow list \<Rightarrow> escrow option" where
  "findEscrow eid es = find (\<lambda>e. escrow_id e = eid) es"

definition insertEscrow :: "escrow \<Rightarrow> db \<Rightarrow> error + db" where
  "insertEscrow e d =
     (if findEscrow (escrow_id e) (escrows d) \<noteq> None then Inl DuplicateKey
      else Inr (d\<lparr>escrows := escrows d @ [e]\<rparr>))"

definition saveEscrow :: "escrow \<Rightarrow> db \<Rightarrow> db" where
  "saveEscrow e d =
     d\<lparr>escrows := replace_first (\<lambda>x. escrow_id x = escrow_id e) e (escrows d)\<rparr>"

text \<open>
  \<open>new Transaction(\<dots>)\<close> followed by \<open>save()\<close>, and \<open>save()\<close> of a transaction that is
  already stored: the document as the middleware leaves it, and the store that holds it.
\<close>

definition createTransaction :: "transaction \<Rightarrow> db \<Rightarrow> error + transaction \<times> db" where
  "createTransaction t d =
     (case Transaction_save True t of
        Inl err \<Rightarrow> Inl err
      | Inr t1 \<Rightarrow>
          (case insertTransaction t1 d of
             Inl err \<Rightarrow> Inl err
           | Inr d1 \<Rightarrow> Inr (t1, d1)))"

definition updateTransaction :: "transaction \<Rightarrow> db \<Rightarrow> error + transaction \<times> db" where
  "updateTransaction t d =
     (case Transaction_save False t of
        Inl err \<Rightarrow> Inl err
      | Inr t1 \<Rightarrow> Inr (t1, saveTransaction t1 d))"

definition userWalletIds :: "string \<Rightarrow> wallet list \<Rightarrow> string list" where
  "userWalletIds userId ws = map wallet_id (filter (\<lambda>w. owner_id w = userId) ws)"

definition truthy :: "string option \<Rightarrow> bool" where
  "truthy v = (case v of None \<Rightarrow> False | Some s \<Rightarrow> s \<noteq> [])"

type_synonym response = "nat \<times> string"

section \<open>Escrow operations (controllers/escrowController.js)\<close>

text \<open>
  Each handler takes the caller (\<open>req.user.userId\<close>), the generated identifiers, the
  request parameters and the store, and returns the HTTP status with its message and the
  store as the handler leaves it. An exception inside a handler, a rejected \<open>save()\<close>
  among them, reaches its outer \<open>catch\<close>, which answers 500; the writes made before it
  stay. Notifications to the webhook service change no document and are left out.

  In \<open>createEscrow\<close> the request's \<open>conditions\<close> are a list of objects with a type and a
  description, or absent, in which case \<open>conditions.map\<close> throws. The hold transaction
  is built with \<open>destination.payment_method: 'escrow'\<close>. \<open>new_Escrow\<close> is the document
  that \<open>new Escrow(\<dots>)\<close> builds, given the conditions as the schema casts them;
  \<open>cast_conditions\<close> is that cast, which only an empty array passes.
\<close>

record createEscrow_body =
  ce_amount :: rat
  ce_currency :: "string option"
  ce_payer_wallet_id :: string
  ce_payee_wallet_id :: string
  ce_conditions :: "(string \<times> string) list option"
  ce_auto_release_date :: "string option"

definition cast_conditions :: "(string \<times> string) list \<Rightarrow> error + string list" where
  "cast_conditions cs = (if cs = [] then Inr [] else Inl ValidationError)"

definition new_Escrow ::
  "string \<Rightarrow> string \<Rightarrow> string \<Rightarrow> createEscrow_body \<Rightarrow> wallet \<Rightarrow> wallet \<Rightarrow> escrow_fees
     \<Rightarrow> string list \<Rightarrow> escrow" where
  "new_Escrow escrowId transactionId ccy body payerWallet payeeWallet fs conds =
     \<lparr>escrow_id = escrowId,
      escrow_transaction_id = transactionId,
      escrow_amount = ce_amount body,
      escrow_currency = uppercase ccy,
      payer_user_id = owner_id payerWallet,
      payer_wallet_id = ce_payer_wallet_id body,
      payee_user_id = owner_id payeeWallet,
      payee_wallet_id = ce_payee_wallet_id body,
      conditions = conds,
      escrow_status = EscrowPending,
      release_settings =
        \<lparr>auto_release = truthy (ce_auto_release_date body),
         auto_release_date =
           (if truthy (ce_auto_release_date body) then ce_auto_release_date body else None),
         require_all_conditions = True\<rparr>,
      escrow_fees = fs,
      disputes = []\<rparr>"

definition createEscrow_store ::
  "createEscrow_body \<Rightarrow> string \<Rightarrow> string \<Rightarrow> wallet \<Rightarrow> wallet \<Rightarrow> escrow_fees
     \<Rightarrow> (string \<times> string) list \<Rightarrow> transaction \<Rightarrow> db \<Rightarrow> response \<times> db" where
  "createEscrow_store body escrowId ccy payerWallet payeeWallet fs conds transaction d1 =
     (case lockFunds payerWallet (ce_amount body) of
        Inl err \<Rightarrow> ((500, ''Failed to create escrow''), d1)
      | Inr payerWallet1 \<Rightarrow>
     (let d2 = saveWallet payerWallet payerWallet1 d1
      in case cast_conditions conds of
        Inl err \<Rightarrow> ((500, ''Failed to create escrow''), d2)
      | Inr cs \<Rightarrow>
     (case Escrow_save (new_Escrow escrowId (transaction_id transaction) ccy body
                          payerWallet payeeWallet fs cs) of
        Inl err \<Rightarrow> ((500, ''Failed to create escrow''), d2)
      | Inr esc \<Rightarrow>
     (case insertEscrow esc d2 of
        Inl err \<Rightarrow> ((500, ''Failed to create escrow''), d2)
      | Inr d3 \<Rightarrow>
     (case updateTransaction (transaction\<lparr>status := Completed\<rparr>) d3 of
        Inl err \<Rightarrow> ((500, ''Failed to create escrow''), d3)
      | Inr (transaction1, d4) \<Rightarrow>
     (case Escrow_fund esc of
        Inl err \<Rightarrow> ((500, ''Failed to create escrow''), d4)
      | Inr esc1 \<Rightarrow>
     (let d5 = saveEscrow esc1 d4
      in case Escrow_activate esc1 of
        Inl err \<Rightarrow> ((500, ''Failed to create escrow''), d5)
      | Inr esc2 \<Rightarrow> ((201, ''Escrow created successfully''), saveEscrow esc2 d5))))))))"

definition createEscrow ::
  "string \<Rightarrow> string \<Rightarrow> string \<Rightarrow> createEscrow_body \<Rightarrow> db \<Rightarrow> response \<times> db" where
  "createEscrow userId uuid1 uuid2 body d =
     (let ccy = (case ce_currency body of None \<Rightarrow> ''KES'' | Some c \<Rightarrow> c);
          escrowId = ''esc_'' @ uuid1
      in case (findWallet (ce_payer_wallet_id body) (wallets d),
               findWallet (ce_payee_wallet_id body) (wallets d)) of
           (Some payerWallet, Some payeeWallet) \<Rightarrow>
             if \<not> hasSufficientFunds payerWallet (ce_amount body) False
             then ((400, ''Insufficient funds in payer wallet''), d)
             else
               (case ce_conditions body of
                  None \<Rightarrow> ((500, ''Failed to create escrow''), d)
                | Some conds \<Rightarrow>
                    (let escrowFee = dmul (ce_amount body) (double (2 / 100));
                         processingFee = 0;
                         totalFee = dadd escrowFee processingFee
                     in case createTransaction
                          \<lparr>transaction_id = ''txn_'' @ uuid2, txn_type = ''escrow_hold'',
                           status = Pending, amount = ce_amount body,
                           txn_currency = uppercase ccy,
                           fees = \<lparr>processing_fee = processingFee, platform_fee = escrowFee,
                                   total_fee = totalFee\<rparr>,
                           net_amount = dsub (ce_amount body) totalFee,
                           source_wallet_id = Some (ce_payer_wallet_id body),
                           source_payment_method = Some ''wallet'',
                           destination_wallet_id = Some escrowId,
                           destination_payment_method = Some ''escrow'',
                           destination_bank_account = None,
                           escrow_parties = Some (PartyName (owner_id payerWallet),
                                                  PartyName (owner_id payeeWallet)),
                           failure_reason = None\<rparr> d of
                          Inl err \<Rightarrow> ((500, ''Failed to create escrow''), d)
                        | Inr (transaction, d1) \<Rightarrow>
                            createEscrow_store body escrowId ccy payerWallet payeeWallet
                              \<lparr>escrow_fee = escrowFee, escrow_processing_fee = processingFee,
                               escrow_total_fee = totalFee\<rparr>
                              conds transaction d1))
         | _ \<Rightarrow> ((404, ''One or both wallets not found''), d))"

definition fulfillCondition ::
  "string \<Rightarrow> string \<Rightarrow> string \<Rightarrow> string \<Rightarrow> (string \<times> string) list option \<Rightarrow> db
     \<Rightarrow> response \<times> db" where
  "fulfillCondition userId escrowId conditionId fulfilledBy evidenceItems d =
     (case findEscrow escrowId (escrows d) of
        None \<Rightarrow> ((404, ''Escrow not found''), d)
      | Some esc \<Rightarrow>
          if \<not> List.member (userWalletIds userId (wallets d)) (payee_wallet_id esc)
          then ((403, ''Access denied''), d)
          else if escrow_status esc \<noteq> Active
          then ((400, ''Escrow is not active''), d)
          else
            (case Escrow_fulfillCondition esc conditionId fulfilledBy of
               Inl err \<Rightarrow> ((500, ''Failed to fulfill condition''), d)
             | Inr esc1 \<Rightarrow>
                 (let d1 = saveEscrow esc1 d
                  in case evidenceItems of
                       None \<Rightarrow> ((200, ''Condition fulfilled successfully''), d1)
                     | Some items \<Rightarrow>
                         (case conditions_id (conditions esc1) conditionId of
                            Inl err \<Rightarrow> ((500, ''Failed to fulfill condition''), d1)
                          | Inr None \<Rightarrow> ((200, ''Condition fulfilled successfully''), d1)
                          | Inr (Some c) \<Rightarrow>
                              if items \<noteq> []
                              then ((500, ''Failed to fulfill condition''), d1)
                              else (case Escrow_save esc1 of
                                      Inl err \<Rightarrow> ((500, ''Failed to fulfill condition''), d1)
                                    | Inr esc2 \<Rightarrow>
                                        ((200, ''Condition fulfilled successfully''),
                                         saveEscrow esc2 d1))))))"

text \<open>
  \<open>releaseEscrow\<close> and \<open>refundEscrow\<close> build their closing transaction with
  \<open>escrow_details.parties: escrow.parties\<close>, the two party sub-documents of the escrow,
  and \<open>refundEscrow\<close> also with \<open>source.payment_method: 'escrow'\<close>. \<open>release_moves\<close> and
  \<open>refund_moves\<close> are the statements of the two handlers after the escrow has been
  saved: the wallet operations, then the closing transaction.
\<close>

definition release_moves ::
  "string \<Rightarrow> escrow \<Rightarrow> transaction \<Rightarrow> wallet \<Rightarrow> wallet \<Rightarrow> db \<Rightarrow> response \<times> db" where
  "release_moves uuid esc1 transaction payerWallet payeeWallet d1 =
     (case unlockFunds payerWallet (escrow_amount esc1) of
        Inl err \<Rightarrow> ((500, ''Failed to release escrow funds''), d1)
      | Inr payerWallet1 \<Rightarrow>
     (let d2 = saveWallet payerWallet payerWallet1 d1
      in case deductFunds payerWallet1 (escrow_amount esc1) of
        Inl err \<Rightarrow> ((500, ''Failed to release escrow funds''), d2)
      | Inr payerWallet2 \<Rightarrow>
     (let d3 = saveWallet payerWallet1 payerWallet2 d2
      in case addFunds payeeWallet (net_amount transaction) of
        Inl err \<Rightarrow> ((500, ''Failed to release escrow funds''), d3)
      | Inr payeeWallet1 \<Rightarrow>
     (let d4 = saveWallet payeeWallet payeeWallet1 d3
      in case createTransaction
           \<lparr>transaction_id = ''rel_'' @ uuid, txn_type = ''escrow_release'',
            status = Completed, amount = escrow_amount esc1,
            txn_currency = uppercase (escrow_currency esc1),
            fees = \<lparr>processing_fee = escrow_processing_fee (escrow_fees esc1),
                    platform_fee = 0,
                    total_fee = escrow_total_fee (escrow_fees esc1)\<rparr>,
            net_amount = net_amount transaction,
            source_wallet_id = Some (payer_wallet_id esc1),
            source_payment_method = Some ''wallet'',
            destination_wallet_id = Some (payee_wallet_id esc1),
            destination_payment_method = Some ''wallet'',
            destination_bank_account = None,
            escrow_parties =
              Some (PartyDocument (payer_user_id esc1) (payer_wallet_id esc1),
                    PartyDocument (payee_user_id esc1) (payee_wallet_id esc1)),
            failure_reason = None\<rparr> d4 of
           Inl err \<Rightarrow> ((500, ''Failed to release escrow funds''), d4)
         | Inr (releaseTransaction, d5) \<Rightarrow>
             ((200, ''Escrow funds released successfully''), d5)))))"

definition releaseEscrow :: "string \<Rightarrow> string \<Rightarrow> string \<Rightarrow> db \<Rightarrow> response \<times> db" where
  "releaseEscrow userId uuid escrowId d =
     (case findEscrow escrowId (escrows d) of
        None \<Rightarrow> ((404, ''Escrow not found''), d)
      | Some esc \<Rightarrow>
          if \<not> List.member (userWalletIds userId (wallets d)) (payer_wallet_id esc)
          then ((403, ''Access denied''), d)
          else if escrow_status esc \<noteq> Active
          then ((400, ''Escrow is not active''), d)
          else if \<not> allConditionsFulfilled esc \<and> require_all_conditions (release_settings esc)
          then ((400, ''Not all conditions fulfilled''), d)
          else
            (case findWallet (payee_wallet_id esc) (wallets d) of
               None \<Rightarrow> ((404, ''Payee wallet not found''), d)
             | Some payeeWallet \<Rightarrow>
            (case findTransaction (escrow_transaction_id esc) (transactions d) of
               None \<Rightarrow> ((404, ''Original transaction not found''), d)
             | Some transaction \<Rightarrow>
            (case findWallet (payer_wallet_id esc) (wallets d) of
               None \<Rightarrow> ((404, ''Payer wallet not found''), d)
             | Some payerWallet \<Rightarrow>
            (case Escrow_release esc of
               Inl err \<Rightarrow> ((500, ''Failed to release escrow funds''), d)
             | Inr esc1 \<Rightarrow>
                 release_moves uuid esc1 transaction payerWallet payeeWallet
                   (saveEscrow esc1 d))))))"

definition refund_moves ::
  "string \<Rightarrow> escrow \<Rightarrow> transaction \<Rightarrow> wallet \<Rightarrow> db \<Rightarrow> response \<times> db" where
  "refund_moves uuid esc1 transaction payerWallet d1 =
     (case unlockFunds payerWallet (escrow_amount esc1) of
        Inl err \<Rightarrow> ((500, ''Failed to refund escrow''), d1)
      | Inr payerWallet1 \<Rightarrow>
     (let d2 = saveWallet payerWallet payerWallet1 d1
      in case addFunds payerWallet1 (amount transaction) of
        Inl err \<Rightarrow> ((500, ''Failed to refund escrow''), d2)
      | Inr payerWallet2 \<Rightarrow>
     (let d3 = saveWallet payerWallet1 payerWallet2 d2
      in case createTransaction
           \<lparr>transaction_id = ''ref_'' @ uuid, txn_type = ''refund'',
            status = Completed, amount = escrow_amount esc1,
            txn_currency = uppercase (escrow_currency esc1),
            fees = \<lparr>processing_fee = 0, platform_fee = 0, total_fee = 0\<rparr>,
            net_amount = escrow_amount esc1,
            source_wallet_id = Some (escrow_id esc1),
            source_payment_method = Some ''escrow'',
            destination_wallet_id = Some (payer_wallet_id esc1),
            destination_payment_method = Some ''wallet'',
            destination_bank_account = None,
            escrow_parties =
              Some (PartyDocument (payer_user_id esc1) (payer_wallet_id esc1),
                    PartyDocument (payee_user_id esc1) (payee_wallet_id esc1)),
            failure_reason = None\<rparr> d3 of
           Inl err \<Rightarrow> ((500, ''Failed to refund escrow''), d3)
         | Inr (refundTransaction, d4) \<Rightarrow>
             ((200, ''Escrow refunded successfully''), d4))))"

definition refundEscrow ::
  "string \<Rightarrow> string \<Rightarrow> string \<Rightarrow> string option \<Rightarrow> db \<Rightarrow> response \<times> db" where
  "refundEscrow userId uuid escrowId why d =
     (case findEscrow escrowId (escrows d) of
        None \<Rightarrow> ((404, ''Escrow not found''), d)
      | Some esc \<Rightarrow>
          if \<not> List.member (userWalletIds userId (wallets d)) (payer_wallet_id esc)
          then ((403, ''Access denied''), d)
          else if \<not> List.member [Active, Disputed] (escrow_status esc)
          then ((400, ''Escrow cannot be refunded''), d)
          else
            (case findWallet (payer_wallet_id esc) (wallets d) of
               None \<Rightarrow> ((404, ''Payer wallet not found''), d)
             | Some payerWallet \<Rightarrow>
            (case findTransaction (escrow_transaction_id esc) (transactions d) of
               None \<Rightarrow> ((404, ''Original transaction not found''), d)
             | Some transaction \<Rightarrow>
            (case Escrow_refund esc why of
               Inl err \<Rightarrow> ((500, ''Failed to refund escrow''), d)
             | Inr esc1 \<Rightarrow>
                 refund_moves uuid esc1 transaction payerWallet (saveEscrow esc1 d)))))"

definition raiseDispute ::
  "string \<Rightarrow> string \<Rightarrow> string \<Rightarrow> string \<Rightarrow> string \<Rightarrow> db \<Rightarrow> response \<times> db" where
  "raiseDispute userId uuid escrowId why descr d =
     (case findEscrow escrowId (escrows d) of
        None \<Rightarrow> ((404, ''Escrow not found''), d)
      | Some esc \<Rightarrow>
          if \<not> (List.member (userWalletIds userId (wallets d)) (payer_wallet_id esc)
                \<or> List.member (userWalletIds userId (wallets d)) (payee_wallet_id esc))
          then ((403, ''Access denied''), d)
          else if escrow_status esc \<noteq> Active
          then ((400, ''Escrow is not active''), d)
          else
            (case Escrow_raiseDispute esc uuid userId why descr of
               Inl err \<Rightarrow> ((500, ''Failed to raise dispute''), d)
             | Inr esc1 \<Rightarrow> ((200, ''Dispute raised successfully''), saveEscrow esc1 d)))"

section \<open>Wallet operations (controllers/walletsController.js)\<close>

text \<open>
  The three handlers build their transaction with a \<open>type\<close> that the schema's \<open>enum\<close>
  does not have (\<open>wallet_transfer\<close>, \<open>wallet_funding\<close>, \<open>wallet_withdrawal\<close>) and save it
  before they touch a wallet. What follows that \<open>save()\<close> is \<open>transfer_moves\<close>,
  \<open>fund_payment\<close> and \<open>withdraw_moves\<close>. The query of \<open>transferFunds\<close> passes the
  currency through the schema's upper-case setter, as queries do from mongoose 5 on. The
  payment provider of \<open>fundWallet\<close>
  is the environment: \<open>mpesaReply\<close> is \<open>None\<close> when the M-Pesa call throws and the
  provider's reference when it returns (the STK push answers with status \<open>pending\<close>); the
  card and bank branches are the mocks of the source. \<open>payment_response\<close> is the
  \<open>switch\<close> on the payment method: the status of the provider's answer, or the message
  of the error thrown.
\<close>

definition transfer_moves ::
  "wallet \<Rightarrow> wallet \<Rightarrow> rat \<Rightarrow> rat \<Rightarrow> db \<Rightarrow> response \<times> db" where
  "transfer_moves sourceWallet recipientWallet totalAmount netAmount d1 =
     (case deductFunds sourceWallet totalAmount of
        Inl err \<Rightarrow> ((500, ''Failed to process transfer''), d1)
      | Inr sourceWallet1 \<Rightarrow>
     (let d2 = saveWallet sourceWallet sourceWallet1 d1
      in case addFunds recipientWallet netAmount of
        Inl err \<Rightarrow> ((500, ''Failed to process transfer''), d2)
      | Inr recipientWallet1 \<Rightarrow>
          ((201, ''Transfer completed successfully''),
           saveWallet recipientWallet recipientWallet1 d2)))"

definition transferFunds ::
  "string \<Rightarrow> string \<Rightarrow> rat \<Rightarrow> string \<Rightarrow> string option \<Rightarrow> db \<Rightarrow> response \<times> db" where
  "transferFunds userId uuid amt recipientWalletId ccy d =
     (case find (\<lambda>w. owner_id w = userId
                     \<and> currency w = uppercase (if truthy ccy
                                                then (case ccy of Some c \<Rightarrow> c | None \<Rightarrow> ''KES'')
                                                else ''KES''))
                (wallets d) of
        None \<Rightarrow> ((404, ''Source wallet not found''), d)
      | Some sourceWallet \<Rightarrow>
     (case findWallet recipientWalletId (wallets d) of
        None \<Rightarrow> ((404, ''Recipient wallet not found''), d)
      | Some recipientWallet \<Rightarrow>
          if currency sourceWallet \<noteq> currency recipientWallet
          then ((400, ''Currency mismatch between wallets''), d)
          else if \<not> hasSufficientFunds sourceWallet amt False
          then ((400, ''Insufficient balance''), d)
          else
            (let transferFee = dmul amt (double (5 / 1000));
                 totalAmount = dadd amt transferFee;
                 netAmount = amt
             in case createTransaction
                  \<lparr>transaction_id = ''transfer_'' @ uuid, txn_type = ''wallet_transfer'',
                   status = Completed, amount = totalAmount,
                   txn_currency = uppercase (currency sourceWallet),
                   fees = \<lparr>processing_fee = 0, platform_fee = transferFee,
                           total_fee = transferFee\<rparr>,
                   net_amount = netAmount,
                   source_wallet_id = Some (wallet_id sourceWallet),
                   source_payment_method = Some ''wallet'',
                   destination_wallet_id = Some recipientWalletId,
                   destination_payment_method = Some ''wallet'',
                   destination_bank_account = None,
                   escrow_parties = None,
                   failure_reason = None\<rparr> d of
                  Inl err \<Rightarrow> ((500, ''Failed to process transfer''), d)
                | Inr (transaction, d1) \<Rightarrow>
                    transfer_moves sourceWallet recipientWallet totalAmount netAmount d1)))"

definition payment_response :: "string \<Rightarrow> string option \<Rightarrow> string + string" where
  "payment_response paymentMethod mpesaReply =
     (if paymentMethod = ''mpesa''
      then (case mpesaReply of
              None \<Rightarrow> Inl ''M-Pesa payment initiation failed''
            | Some r \<Rightarrow> Inr ''pending'')
      else if paymentMethod = ''card'' then Inr ''completed''
      else if paymentMethod = ''bank'' then Inr ''pending''
      else Inl ''Unsupported payment method'')"

definition fund_failed :: "transaction \<Rightarrow> string \<Rightarrow> db \<Rightarrow> response \<times> db" where
  "fund_failed transaction msg d =
     (case updateTransaction (transaction\<lparr>status := Failed, failure_reason := Some msg\<rparr>) d of
        Inl err \<Rightarrow> ((500, ''Failed to fund wallet''), d)
      | Inr (transaction1, d1) \<Rightarrow> ((400, ''Payment processing failed''), d1))"

definition fund_payment ::
  "wallet \<Rightarrow> transaction \<Rightarrow> rat \<Rightarrow> string \<Rightarrow> string option \<Rightarrow> db \<Rightarrow> response \<times> db" where
  "fund_payment wal transaction netAmount paymentMethod mpesaReply d1 =
     (case payment_response paymentMethod mpesaReply of
        Inl msg \<Rightarrow> fund_failed transaction msg d1
      | Inr st \<Rightarrow>
          if st = ''completed''
          then (case addFunds wal netAmount of
                  Inl err \<Rightarrow> fund_failed transaction ''Validation failed'' d1
                | Inr wal1 \<Rightarrow>
                    (let d2 = saveWallet wal wal1 d1
                     in case updateTransaction (transaction\<lparr>status := Completed\<rparr>) d2 of
                          Inl err \<Rightarrow>
                            fund_failed (transaction\<lparr>status := Completed\<rparr>) ''Validation failed'' d2
                        | Inr (transaction1, d3) \<Rightarrow> ((201, ''Wallet funding initiated''), d3)))
          else (case updateTransaction (transaction\<lparr>status := Processing\<rparr>) d1 of
                  Inl err \<Rightarrow>
                    fund_failed (transaction\<lparr>status := Processing\<rparr>) ''Validation failed'' d1
                | Inr (transaction1, d2) \<Rightarrow> ((201, ''Wallet funding initiated''), d2)))"

definition fundWallet ::
  "string \<Rightarrow> string \<Rightarrow> string \<Rightarrow> rat \<Rightarrow> string option \<Rightarrow> string \<Rightarrow> string option \<Rightarrow> db
     \<Rightarrow> response \<times> db" where
  "fundWallet userId uuid walletId amt ccy paymentMethod mpesaReply d =
     (case findOwnedWallet walletId userId (wallets d) of
        None \<Rightarrow> ((404, ''Wallet not found''), d)
      | Some wal \<Rightarrow>
          if currency wal \<noteq> (case ccy of None \<Rightarrow> ''KES'' | Some c \<Rightarrow> c)
          then ((400, ''Currency mismatch''), d)
          else
            (let processingFee = dmul amt (double (15 / 1000));
                 platformFee = 0;
                 totalFee = dadd processingFee platformFee;
                 totalAmount = dadd amt totalFee;
                 netAmount = amt
             in case createTransaction
                  \<lparr>transaction_id = ''fund_'' @ uuid, txn_type = ''wallet_funding'',
                   status = Pending, amount = totalAmount,
                   txn_currency = uppercase (case ccy of None \<Rightarrow> ''KES'' | Some c \<Rightarrow> c),
                   fees = \<lparr>processing_fee = processingFee, platform_fee = platformFee,
                           total_fee = totalFee\<rparr>,
                   net_amount = netAmount,
                   source_wallet_id = None,
                   source_payment_method = Some paymentMethod,
                   destination_wallet_id = Some walletId,
                   destination_payment_method = Some ''wallet'',
                   destination_bank_account = None,
                   escrow_parties = None,
                   failure_reason = None\<rparr> d of
                  Inl err \<Rightarrow> ((500, ''Failed to fund wallet''), d)
                | Inr (transaction, d1) \<Rightarrow>
                    fund_payment wal transaction netAmount paymentMethod mpesaReply d1))"

definition withdraw_moves :: "wallet \<Rightarrow> transaction \<Rightarrow> rat \<Rightarrow> db \<Rightarrow> response \<times> db" where
  "withdraw_moves wal transaction totalAmount d1 =
     (case deductFunds wal totalAmount of
        Inl err \<Rightarrow> ((500, ''Failed to process withdrawal''), d1)
      | Inr wal1 \<Rightarrow>
     (let d2 = saveWallet wal wal1 d1
      in case updateTransaction (transaction\<lparr>status := Processing\<rparr>) d2 of
        Inl err \<Rightarrow> ((500, ''Failed to process withdrawal''), d2)
      | Inr (transaction1, d3) \<Rightarrow> ((201, ''Withdrawal initiated''), d3)))"

definition withdrawFromWallet ::
  "string \<Rightarrow> string \<Rightarrow> string \<Rightarrow> rat \<Rightarrow> string option \<Rightarrow> db \<Rightarrow> response \<times> db" where
  "withdrawFromWallet userId uuid walletId amt paymentMethod d =
     (case findOwnedWallet walletId userId (wallets d) of
        None \<Rightarrow> ((404, ''Wallet not found''), d)
      | Some wal \<Rightarrow>
          if \<not> hasSufficientFunds wal amt False
          then ((400, ''Insufficient balance''), d)
          else
            (let processingFee = dmul amt (double (15 / 1000));
                 platformFee = 0;
                 totalFee = dadd processingFee platformFee;
                 totalAmount = dadd amt totalFee;
                 netAmount = amt
             in case createTransaction
                  \<lparr>transaction_id = ''withdraw_'' @ uuid, txn_type = ''wallet_withdrawal'',
                   status = Pending, amount = totalAmount,
                   txn_currency = uppercase (currency wal),
                   fees = \<lparr>processing_fee = processingFee, platform_fee = platformFee,
                           total_fee = totalFee\<rparr>,
                   net_amount = netAmount,
                   source_wallet_id = Some walletId,
                   source_payment_method = Some ''wallet'',
                   destination_wallet_id = None,
                   destination_payment_method = paymentMethod,
                   destination_bank_account = None,
                   escrow_parties = None,
                   failure_reason = None\<rparr> d of
                  Inl err \<Rightarrow> ((500, ''Failed to process withdrawal''), d)
                | Inr (transaction, d1) \<Rightarrow> withdraw_moves wal transaction totalAmount d1))"

section \<open>Payouts (controllers/payoutsController.js, services/payoutService.js)\<close>

text \<open>
  The provider functions of \<open>payoutService\<close>. A wallet payout loads the destination
  wallet, adds the amount to its available balance and saves it; it fails when that
  wallet is missing or the save is rejected (the write to \<open>balances.total\<close>, which is not
  a path of the schema, stores nothing). An M-Pesa payout fails when the request has no
  phone number or when the external B2C call does (\<open>mpesaReply = None\<close>), and is
  \<open>pending\<close> otherwise. A bank payout reads the fields of the bank account object: it
  fails when the request has none and is \<open>processing\<close> otherwise. A failure is the left
  injection, with the message of the \<open>Error\<close> thrown.
\<close>

definition processWalletPayout ::
  "rat \<Rightarrow> string option \<Rightarrow> db \<Rightarrow> (string + txn_status) \<times> db" where
  "processWalletPayout amt walletId d =
     (case (case walletId of None \<Rightarrow> None | Some i \<Rightarrow> findWallet i (wallets d)) of
        None \<Rightarrow> (Inl ''Wallet transfer failed: Destination wallet not found'', d)
      | Some destinationWallet \<Rightarrow>
          (case Wallet_save (destinationWallet\<lparr>balances := (balances destinationWallet)
                  \<lparr>available := dadd (available (balances destinationWallet)) amt\<rparr>\<rparr>) of
             Inl err \<Rightarrow> (Inl ''Wallet transfer failed: Wallet validation failed'', d)
           | Inr destinationWallet1 \<Rightarrow>
               (Inr Completed, saveWallet destinationWallet destinationWallet1 d)))"

definition processMpesaPayout ::
  "string option \<Rightarrow> string option \<Rightarrow> db \<Rightarrow> (string + txn_status) \<times> db" where
  "processMpesaPayout phoneNumber mpesaReply d =
     (case phoneNumber of
        None \<Rightarrow> (Inl ''M-Pesa payout failed'', d)
      | Some p \<Rightarrow>
          (case mpesaReply of
             None \<Rightarrow> (Inl ''M-Pesa payout failed'', d)
           | Some conversationId \<Rightarrow> (Inr Pending, d)))"

definition processBankPayout ::
  "bank_account option \<Rightarrow> db \<Rightarrow> (string + txn_status) \<times> db" where
  "processBankPayout bankAccount d =
     (case bankAccount of
        None \<Rightarrow> (Inl ''Bank transfer failed'', d)
      | Some b \<Rightarrow> (Inr Processing, d))"

definition provider_call ::
  "destination \<Rightarrow> rat \<Rightarrow> string option \<Rightarrow> db \<Rightarrow> (string + txn_status) \<times> db" where
  "provider_call destination netAmount mpesaReply d =
     (if dest_type destination = ''wallet''
      then processWalletPayout netAmount (dest_wallet_id destination) d
      else if dest_type destination = ''mpesa''
      then processMpesaPayout (phone destination) mpesaReply d
      else if dest_type destination = ''bank''
      then processBankPayout (dest_bank_account destination) d
      else (Inl ''Unsupported destination type'', d))"

record createPayout_body =
  cp_source_wallet_id :: "string option"
  cp_destination :: "destination option"
  cp_amount :: rat
  cp_currency :: "string option"

text \<open>
  \<open>createPayout\<close> in its two phases. \<open>payout_debit\<close> is the handler up to and including
  \<open>sourceWallet.deductFunds(totalAmount)\<close>: it answers with a response when the request is
  turned away or a \<open>save()\<close> is rejected, and otherwise hands over the wallet document as
  loaded and as debited, the saved transaction, the net and total amounts and the store.
  \<open>payout_Transaction\<close> is the document that \<open>new Transaction(\<dots>)\<close> builds, with
  \<open>bank_account: destination.bank_account\<close>, the object of the request.
  \<open>payout_settle\<close> is the \<open>try\<close>/\<open>catch\<close> around the provider call, and
  \<open>payout_failed\<close> its \<open>catch\<close> block.
\<close>

definition payout_Transaction ::
  "string \<Rightarrow> string \<Rightarrow> destination \<Rightarrow> string \<Rightarrow> rat \<Rightarrow> rat \<Rightarrow> rat \<Rightarrow> transaction" where
  "payout_Transaction payoutId sourceWalletId destination ccy feeAmount netAmount totalAmount =
     \<lparr>transaction_id = payoutId, txn_type = ''payout'',
      status = Pending, amount = totalAmount,
      txn_currency = uppercase ccy,
      fees = \<lparr>processing_fee = feeAmount, platform_fee = 0, total_fee = feeAmount\<rparr>,
      net_amount = netAmount,
      source_wallet_id = Some sourceWalletId,
      source_payment_method = Some ''wallet'',
      destination_wallet_id = None,
      destination_payment_method = Some (dest_type destination),
      destination_bank_account = dest_bank_account destination,
      escrow_parties = None,
      failure_reason = None\<rparr>"

definition payout_debit ::
  "string \<Rightarrow> string \<Rightarrow> createPayout_body \<Rightarrow> db
     \<Rightarrow> (response \<times> db) + (destination \<times> wallet \<times> transaction \<times> rat \<times> rat \<times> db)" where
  "payout_debit userId uuid body d =
     (case (cp_source_wallet_id body, cp_destination body) of
        (Some sourceWalletId, Some destination) \<Rightarrow>
          if sourceWalletId = [] \<or> cp_amount body = 0
          then Inl ((400, ''source_wallet_id, destination, and amount required''), d)
          else if dest_type destination = []
                  \<or> \<not> List.member [''mpesa'', ''bank'', ''wallet''] (dest_type destination)
          then Inl ((400, ''Invalid destination type''), d)
          else
            (case findOwnedWallet sourceWalletId userId (wallets d) of
               None \<Rightarrow> Inl ((404, ''Source wallet not found''), d)
             | Some sourceWallet \<Rightarrow>
                 (let ccy = (case cp_currency body of None \<Rightarrow> ''KES'' | Some c \<Rightarrow> c);
                      routing = selectPaymentRail_double destination (cp_amount body) ccy;
                      feeAmount = fee routing;
                      netAmount = dsub (cp_amount body) feeAmount;
                      totalAmount = dadd (cp_amount body) feeAmount
                  in if \<not> hasSufficientFunds sourceWallet totalAmount False
                     then Inl ((400, ''Insufficient balance''), d)
                     else
                       (case createTransaction
                          (payout_Transaction (''payout_'' @ uuid) sourceWalletId destination ccy
                             feeAmount netAmount totalAmount) d of
                          Inl err \<Rightarrow> Inl ((500, ''Failed to create payout''), d)
                        | Inr (transaction, d1) \<Rightarrow>
                            (case deductFunds sourceWallet totalAmount of
                               Inl err \<Rightarrow> Inl ((500, ''Failed to create payout''), d1)
                             | Inr sourceWallet1 \<Rightarrow>
                                 Inr (destination, sourceWallet1, transaction, netAmount,
                                      totalAmount,
                                      saveWallet sourceWallet sourceWallet1 d1)))))
      | _ \<Rightarrow> Inl ((400, ''source_wallet_id, destination, and amount required''), d))"

definition payout_failed ::
  "wallet \<Rightarrow> transaction \<Rightarrow> rat \<Rightarrow> string \<Rightarrow> db \<Rightarrow> response \<times> db" where
  "payout_failed sourceWallet1 transaction totalAmount msg d3 =
     (case updateTransaction (transaction\<lparr>status := Failed, failure_reason := Some msg\<rparr>) d3 of
        Inl err \<Rightarrow> ((500, ''Failed to create payout''), d3)
      | Inr (transaction1, d4) \<Rightarrow>
          (case addFunds sourceWallet1 totalAmount of
             Inl err \<Rightarrow> ((500, ''Failed to create payout''), d4)
           | Inr sourceWallet2 \<Rightarrow>
               ((400, ''Payout processing failed''),
                saveWallet sourceWallet1 sourceWallet2 d4)))"

definition payout_settle ::
  "string option \<Rightarrow> destination \<times> wallet \<times> transaction \<times> rat \<times> rat \<times> db \<Rightarrow> response \<times> db" where
  "payout_settle mpesaReply ctx =
     (case ctx of (destination, sourceWallet1, transaction, netAmount, totalAmount, d2) \<Rightarrow>
        (case provider_call destination netAmount mpesaReply d2 of
           (Inr payoutStatus, d3) \<Rightarrow>
             (case updateTransaction (transaction\<lparr>status := payoutStatus\<rparr>) d3 of
                Inl err \<Rightarrow>
                  payout_failed sourceWallet1 (transaction\<lparr>status := payoutStatus\<rparr>) totalAmount
                    ''Validation failed'' d3
              | Inr (transaction1, d4) \<Rightarrow> ((201, ''success''), d4))
         | (Inl msg, d3) \<Rightarrow> payout_failed sourceWallet1 transaction totalAmount msg d3))"

definition createPayout ::
  "string \<Rightarrow> string \<Rightarrow> string option \<Rightarrow> createPayout_body \<Rightarrow> db \<Rightarrow> response \<times> db" where
  "createPayout userId uuid mpesaReply body d =
     (case payout_debit userId uuid body d of
        Inl answer \<Rightarrow> answer
      | Inr ctx \<Rightarrow> payout_settle mpesaReply ctx)"

text \<open>
  \<open>cancelPayout\<close> looks the payout up with a filter on \<open>metadata.user_id\<close>, a path that
  the schema does not have and no stored transaction carries. What the query does with
  it is the \<open>strictQuery\<close> setting of mongoose, which the sources do not fix: when it is
  on, the unknown path is dropped from the filter and the payout is found by its id and
  type, whoever asks; when it is off, the filter is sent as it is and matches no document.
\<close>

definition cancelPayout :: "bool \<Rightarrow> string \<Rightarrow> string \<Rightarrow> db \<Rightarrow> response \<times> db" where
  "cancelPayout strictQuery userId payoutId d =
     (case (if strictQuery
            then find (\<lambda>t. transaction_id t = payoutId \<and> txn_type t = ''payout'') (transactions d)
            else None) of
        None \<Rightarrow> ((404, ''Payout not found''), d)
      | Some transaction \<Rightarrow>
          if \<not> List.member [Pending, Processing] (status transaction)
          then ((400, ''Payout cannot be cancelled''), d)
          else
            (case updateTransaction (transaction\<lparr>status := Cancelled\<rparr>) d of
               Inl err \<Rightarrow> ((500, ''Failed to cancel payout''), d)
             | Inr (transaction1, d1) \<Rightarrow>
                 if truthy (source_wallet_id transaction1)
                 then (case (case source_wallet_id transaction1 of
                               None \<Rightarrow> None | Some i \<Rightarrow> findWallet i (wallets d1)) of
                         None \<Rightarrow> ((200, ''Payout cancelled successfully''), d1)
                       | Some sourceWallet \<Rightarrow>
                           (case addFunds sourceWallet (amount transaction1) of
                              Inl err \<Rightarrow> ((500, ''Failed to cancel payout''), d1)
                            | Inr sourceWallet1 \<Rightarrow>
                                ((200, ''Payout cancelled successfully''),
                                 saveWallet sourceWallet sourceWallet1 d1)))
                 else ((200, ''Payout cancelled successfully''), d1)))"

section \<open>The public interface as a transition system\<close>

text \<open>
  A request is a call of one handler with its caller, generated identifiers, parameters
  and the replies of the external providers; \<open>run\<close> serves a list of requests in order.
  The first argument of \<open>handle\<close> and \<open>run\<close> is the \<open>strictQuery\<close> setting.
\<close>

datatype request =
    CreateEscrow string string string createEscrow_body
  | FulfillCondition string string string string "(string \<times> string) list option"
  | ReleaseEscrow string string string
  | RefundEscrow string string string "string option"
  | RaiseDispute string string string string string
  | TransferFunds string string rat string "string option"
  | FundWallet string string string rat "string option" string "string option"
  | WithdrawFromWallet string string string rat "string option"
  | CreatePayout string string "string option" createPayout_body
  | CancelPayout string string

fun handle :: "bool \<Rightarrow> request \<Rightarrow> db \<Rightarrow> response \<times> db" where
  "handle sq (CreateEscrow userId uuid1 uuid2 body) d = createEscrow userId uuid1 uuid2 body d"
| "handle sq (FulfillCondition userId escrowId conditionId fulfilledBy items) d =
     fulfillCondition userId escrowId conditionId fulfilledBy items d"
| "handle sq (ReleaseEscrow userId uuid escrowId) d = releaseEscrow userId uuid escrowId d"
| "handle sq (RefundEscrow userId uuid escrowId why) d = refundEscrow userId uuid escrowId why d"
| "handle sq (RaiseDispute userId uuid escrowId why descr) d =
     raiseDispute userId uuid escrowId why descr d"
| "handle sq (TransferFunds userId uuid amt recipientWalletId ccy) d =
     transferFunds userId uuid amt recipientWalletId ccy d"
| "handle sq (FundWallet userId uuid walletId amt ccy paymentMethod mpesaReply) d =
     fundWallet userId uuid walletId amt ccy paymentMethod mpesaReply d"
| "handle sq (WithdrawFromWallet userId uuid walletId amt paymentMethod) d =
     withdrawFromWallet userId uuid walletId amt paymentMethod d"
| "handle sq (CreatePayout userId uuid mpesaReply body) d =
     createPayout userId uuid mpesaReply body d"
| "handle sq (CancelPayout userId payoutId) d = cancelPayout sq userId payoutId d"

fun run :: "bool \<Rightarrow> request list \<Rightarrow> db \<Rightarrow> db" where
  "run sq [] d = d"
| "run sq (r # rs) d = run sq rs (snd (handle sq r d))"

section \<open>Invariants of the store\<close>

definition wallets_ok :: "db \<Rightarrow> bool" where
  "wallets_ok d \<longleftrightarrow> (\<forall>w \<in> set (wallets d). nonneg w)"

definition fees_ok :: "db \<Rightarrow> bool" where
  "fees_ok d \<longleftrightarrow> (\<forall>t \<in> set (transactions d). fee_invariant t)"

definition settings_ok :: "escrow \<Rightarrow> bool" where
  "settings_ok e \<longleftrightarrow>
     require_all_conditions (release_settings e)
   \<and> (auto_release (release_settings e) \<longleftrightarrow> auto_release_date (release_settings e) \<noteq> None)"

definition escrows_ok :: "db \<Rightarrow> bool" where
  "escrows_ok d \<longleftrightarrow> (\<forall>e \<in> set (escrows d). settings_ok e)"



section \<open>Concrete documents for the scenarios\<close>

definition w0 :: wallet where
  "w0 = \<lparr>wallet_id = ''A'', owner_id = ''u1'', currency = ''KES'',
         balances = \<lparr>available = 100, locked = 40, pending = 7\<rparr>\<rparr>"

definition dest_of :: "string \<Rightarrow> destination" where
  "dest_of t = \<lparr>dest_type = t, phone = None, dest_bank_account = None,
                dest_wallet_id = None, recipient_name = None\<rparr>"

definition walletA :: wallet where
  "walletA = \<lparr>wallet_id = ''A'', owner_id = ''payer'', currency = ''KES'',
     balances = \<lparr>available = 15000, locked = 0, pending = 0\<rparr>\<rparr>"

definition walletB :: wallet where
  "walletB = \<lparr>wallet_id = ''B'', owner_id = ''payee'', currency = ''KES'',
     balances = \<lparr>available = 0, locked = 0, pending = 0\<rparr>\<rparr>"

definition db0 :: db where
  "db0 = \<lparr>wallets = [walletA, walletB], transactions = [], escrows = []\<rparr>"

definition body0 :: createEscrow_body where
  "body0 = \<lparr>ce_amount = 10000, ce_currency = Some ''KES'', ce_payer_wallet_id = ''A'',
     ce_payee_wallet_id = ''B'', ce_conditions = Some [(''delivery'', ''goods delivered'')],
     ce_auto_release_date = Some ''2030-01-01''\<rparr>"

text \<open>
  A store in the state that the scenarios describe after the creation: the escrow of
  10,000 is active, its amount is locked in the payer's wallet and its hold transaction
  is recorded. The documents are valid for their schemas: the condition is a string and
  the hold transaction has no destination payment method.
\<close>

definition walletA_held :: wallet where
  "walletA_held = walletA\<lparr>balances := \<lparr>available = 5000, locked = 10000, pending = 0\<rparr>\<rparr>"

definition hold_txn :: transaction where
  "hold_txn =
     \<lparr>transaction_id = ''txn_t1'', txn_type = ''escrow_hold'', status = Completed,
      amount = 10000, txn_currency = ''KES'',
      fees = \<lparr>processing_fee = 0, platform_fee = 200, total_fee = 200\<rparr>,
      net_amount = 9800, source_wallet_id = Some ''A'', source_payment_method = Some ''wallet'',
      destination_wallet_id = Some ''esc_e1'', destination_payment_method = None,
      destination_bank_account = None,
      escrow_parties = Some (PartyName ''payer'', PartyName ''payee''),
      failure_reason = None\<rparr>"

definition escrow1 :: "string list \<Rightarrow> escrow_status \<Rightarrow> escrow" where
  "escrow1 conds st =
     \<lparr>escrow_id = ''esc_e1'', escrow_transaction_id = ''txn_t1'', escrow_amount = 10000,
      escrow_currency = ''KES'', payer_user_id = ''payer'', payer_wallet_id = ''A'',
      payee_user_id = ''payee'', payee_wallet_id = ''B'',
      conditions = conds,
      escrow_status = st,
      release_settings = \<lparr>auto_release = True, auto_release_date = Some ''2030-01-01'',
                          require_all_conditions = True\<rparr>,
      escrow_fees = \<lparr>escrow_fee = 200, escrow_processing_fee = 0, escrow_total_fee = 200\<rparr>,
      disputes = []\<rparr>"

definition db_held :: "string list \<Rightarrow> db" where
  "db_held conds =
     \<lparr>wallets = [walletA_held, walletB], transactions = [hold_txn],
      escrows = [escrow1 conds Active]\<rparr>"

definition payout0 :: createPayout_body where
  "payout0 = \<lparr>cp_source_wallet_id = Some ''A'',
     cp_destination = Some (dest_of ''mpesa'' \<lparr>phone := Some ''254700000000''\<rparr>),
     cp_amount = 1000, cp_currency = None\<rparr>"

definition payout_txn :: "txn_status \<Rightarrow> string option \<Rightarrow> transaction" where
  "payout_txn st why =
     \<lparr>transaction_id = ''payout_p1'', txn_type = ''payout'', status = st,
      amount = 1015, txn_currency = ''KES'',
      fees = \<lparr>processing_fee = 15, platform_fee = 0, total_fee = 15\<rparr>,
      net_amount = 1000, source_wallet_id = Some ''A'', source_payment_method = Some ''wallet'',
      destination_wallet_id = None, destination_payment_method = Some ''mpesa'',
      destination_bank_account = None, escrow_parties = None, failure_reason = why\<rparr>"

definition walletC :: wallet where
  "walletC = \<lparr>wallet_id = ''C'', owner_id = ''payer'', currency = ''KES'',
     balances = \<lparr>available = double (101 / 10), locked = 0, pending = 0\<rparr>\<rparr>"

definition payoutC :: createPayout_body where
  "payoutC = \<lparr>cp_source_wallet_id = Some ''C'',
     cp_destination = Some (dest_of ''wallet'' \<lparr>dest_wallet_id := Some ''Z''\<rparr>),
     cp_amount = double (3045 / 10000), cp_currency = None\<rparr>"

definition payoutB :: createPayout_body where
  "payoutB = \<lparr>cp_source_wallet_id = Some ''A'',
     cp_destination = Some (dest_of ''wallet'' \<lparr>dest_wallet_id := Some ''B''\<rparr>),
     cp_amount = 500, cp_currency = Some ''KES''\<rparr>"

definition dbC :: db where
  "dbC = \<lparr>wallets = [walletC], transactions = [], escrows = []\<rparr>"

section \<open>Rounding to a double keeps the sign\<close>

lemma round_half_even_nonneg: "0 \<le> p \<Longrightarrow> 0 < q \<Longrightarrow> 0 \<le> round_half_even p q"
  unfolding round_half_even_def Let_def by (auto simp: pos_imp_zdiv_nonneg_iff)

lemma scale_nonneg:
  "0 \<le> p \<Longrightarrow> 0 < q \<Longrightarrow> scale n p q e = (p', q', e') \<Longrightarrow> 0 \<le> p' \<and> 0 < q'"
  by (induction n p q e rule: scale.induct) (auto split: if_splits)

lemma pow2_pos: "0 < pow2 e"
  unfolding pow2_def by simp

lemma quotient_of_nonneg: "0 \<le> x \<Longrightarrow> quotient_of x = (p, q) \<Longrightarrow> 0 \<le> p \<and> 0 < q"
  using quotient_of_denom_pos [of x p q] quotient_of_div [of x p q]
  by (auto simp: zero_le_divide_iff)

lemma double_nonneg: "0 \<le> x \<Longrightarrow> 0 \<le> double x"
proof (cases "x = 0")
  case True
  then show ?thesis by (simp add: double_def)
next
  case False
  assume x: "0 \<le> x"
  obtain p0 q0 where q: "quotient_of \<bar>x\<bar> = (p0, q0)" by (cases "quotient_of \<bar>x\<bar>")
  obtain p q e where s: "scale 2200 p0 q0 0 = (p, q, e)" by (cases "scale 2200 p0 q0 0")
  have "0 \<le> p0 \<and> 0 < q0" using q by (intro quotient_of_nonneg [of "\<bar>x\<bar>"]) auto
  then have "0 \<le> p \<and> 0 < q" using s scale_nonneg by blast
  then have "0 \<le> round_half_even p q" by (simp add: round_half_even_nonneg)
  then have "0 \<le> (of_int (round_half_even p q) :: rat) * pow2 e"
    using pow2_pos [of e] by (intro mult_nonneg_nonneg) auto
  then show ?thesis using False x q s by (simp add: double_def sgn_if)
qed

lemma dadd_nonneg: "0 \<le> x \<Longrightarrow> 0 \<le> y \<Longrightarrow> 0 \<le> dadd x y"
  by (simp add: dadd_def double_nonneg)

lemma dsub_nonneg: "y \<le> x \<Longrightarrow> 0 \<le> dsub x y"
  by (simp add: dsub_def double_nonneg)

section \<open>The routing fee in doubles\<close>

lemma selectPaymentRail_double_routing:
  "rail (selectPaymentRail_double dst a c) = rail (selectPaymentRail dst a c)
 \<and> instant (selectPaymentRail_double dst a c) = instant (selectPaymentRail dst a c)
 \<and> fee (selectPaymentRail_double dst a c) =
      (if rail (selectPaymentRail dst a c) = ''mpesa_b2c'' then dmul a (double (15 / 1000))
       else fee (selectPaymentRail dst a c))"
  by (simp add: selectPaymentRail_double_def selectPaymentRail_def)

lemma selectPaymentRail_double_values:
  "fee (selectPaymentRail_double (dest_of ''mpesa'') 250000 ''KES'') = 3750
 \<and> fee (selectPaymentRail_double (dest_of ''mpesa'') 250001 ''KES'') = 100
 \<and> fee (selectPaymentRail_double (dest_of ''mpesa'') 1000 ''KES'') = 15
 \<and> fee (selectPaymentRail_double (dest_of ''mpesa'') 11 ''KES'') =
      2972375754064527 / 18014398509481984"
  by code_simp

section \<open>Ledger primitive contracts\<close>

text \<open>
  C8, the claim as stated. It lets \<open>lockFunds\<close> succeed whenever \<open>available \<ge> amount\<close>
  and \<open>unlockFunds\<close> whenever \<open>locked \<ge> amount\<close>, and it lets the balances move by the
  amount. On a wallet with balances 100, 40 and 7: locking \<open>-50\<close> passes the check on the
  available balance and is then rejected by \<open>save()\<close>, because locked would be \<open>-10\<close>;
  unlocking \<open>-150\<close> passes the check on the locked balance and is rejected because
  available would be \<open>-50\<close>. And the available balance of \<open>walletC\<close>, the double next to
  10.1, less the double next to 0.3045 is not a double: \<open>deductFunds\<close> leaves the
  double next to the difference.
\<close>

theorem ledger_primitive_contracts_counterexample:
  "- 50 \<le> available (balances w0)
 \<and> lockFunds w0 (- 50) = Inl ValidationError
 \<and> - 150 \<le> locked (balances w0)
 \<and> unlockFunds w0 (- 150) = Inl ValidationError
 \<and> deductFunds walletC (double (3045 / 10000)) =
      Inr (walletC\<lparr>balances := \<lparr>available = 2757188134369231 / 281474976710656,
                                 locked = 0, pending = 0\<rparr>\<rparr>)
 \<and> available (balances walletC) - double (3045 / 10000) =
      11028752537476923 / 1125899906842624
 \<and> (11028752537476923 / 1125899906842624 :: rat) \<noteq> 2757188134369231 / 281474976710656"
  by code_simp

text \<open>
  C8, amended to non-negative amounts, wallets with non-negative balances, and the
  arithmetic of the language. \<open>lockFunds\<close> succeeds exactly when \<open>available \<ge> amount\<close>;
  it then takes the amount from available and adds it to locked, and fails with the
  insufficient-funds error otherwise. \<open>unlockFunds\<close> succeeds exactly when
  \<open>locked \<ge> amount\<close>, moves the amount back from locked to available and fails with the
  insufficient-locked-funds error otherwise; \<open>releaseFunds\<close> is the same function.
  \<open>deductFunds\<close> succeeds exactly when \<open>available \<ge> amount\<close> and lowers only available.
  \<open>addFunds\<close> always succeeds and adds the amount to available. None of them changes
  the pending balance. Sums and differences are those of doubles, \<open>dadd\<close> and \<open>dsub\<close>.
\<close>

theorem ledger_primitive_contracts:
  "nonneg w \<and> 0 \<le> a \<longrightarrow>
   ((\<exists>w'. lockFunds w a = Inr w') \<longleftrightarrow> available (balances w) \<ge> a)
 \<and> (available (balances w) \<ge> a \<longrightarrow>
       (\<exists>w'. lockFunds w a = Inr w'
          \<and> available (balances w') = dsub (available (balances w)) a
          \<and> locked (balances w') = dadd (locked (balances w)) a
          \<and> pending (balances w') = pending (balances w)))
 \<and> (\<not> available (balances w) \<ge> a \<longrightarrow> lockFunds w a = Inl InsufficientFunds)
 \<and> ((\<exists>w'. unlockFunds w a = Inr w') \<longleftrightarrow> locked (balances w) \<ge> a)
 \<and> (locked (balances w) \<ge> a \<longrightarrow>
       (\<exists>w'. unlockFunds w a = Inr w'
          \<and> locked (balances w') = dsub (locked (balances w)) a
          \<and> available (balances w') = dadd (available (balances w)) a
          \<and> pending (balances w') = pending (balances w)))
 \<and> (\<not> locked (balances w) \<ge> a \<longrightarrow> unlockFunds w a = Inl InsufficientLockedFunds)
 \<and> releaseFunds w a = unlockFunds w a
 \<and> ((\<exists>w'. deductFunds w a = Inr w') \<longleftrightarrow> available (balances w) \<ge> a)
 \<and> (available (balances w) \<ge> a \<longrightarrow>
       (\<exists>w'. deductFunds w a = Inr w'
          \<and> available (balances w') = dsub (available (balances w)) a
          \<and> locked (balances w') = locked (balances w)
          \<and> pending (balances w') = pending (balances w)))
 \<and> (\<not> available (balances w) \<ge> a \<longrightarrow> deductFunds w a = Inl InsufficientAvailableFunds)
 \<and> (\<exists>w'. addFunds w a = Inr w'
          \<and> available (balances w') = dadd (available (balances w)) a
          \<and> locked (balances w') = locked (balances w)
          \<and> pending (balances w') = pending (balances w))"
  by (auto simp: lockFunds_def unlockFunds_def releaseFunds_def deductFunds_def addFunds_def
        hasSufficientFunds_def Wallet_save_def nonneg_def not_le dadd_nonneg dsub_nonneg)

theorem ledger_primitive_contracts_witness:
  "nonneg w0
 \<and> lockFunds w0 60 = Inr (w0\<lparr>balances := \<lparr>available = 40, locked = 100, pending = 7\<rparr>\<rparr>)
 \<and> lockFunds w0 101 = Inl InsufficientFunds
 \<and> unlockFunds w0 40 = Inr (w0\<lparr>balances := \<lparr>available = 140, locked = 0, pending = 7\<rparr>\<rparr>)
 \<and> unlockFunds w0 41 = Inl InsufficientLockedFunds
 \<and> deductFunds w0 100 = Inr (w0\<lparr>balances := \<lparr>available = 0, locked = 40, pending = 7\<rparr>\<rparr>)
 \<and> deductFunds w0 101 = Inl InsufficientAvailableFunds
 \<and> addFunds w0 5 = Inr (w0\<lparr>balances := \<lparr>available = 105, locked = 40, pending = 7\<rparr>\<rparr>)"
proof -
  have n: "nonneg w0" by (simp add: nonneg_def w0_def)
  have c: "lockFunds w0 60 = Inr (w0\<lparr>balances := \<lparr>available = 40, locked = 100, pending = 7\<rparr>\<rparr>)"
    "lockFunds w0 101 = Inl InsufficientFunds"
    "unlockFunds w0 40 = Inr (w0\<lparr>balances := \<lparr>available = 140, locked = 0, pending = 7\<rparr>\<rparr>)"
    "unlockFunds w0 41 = Inl InsufficientLockedFunds"
    "deductFunds w0 100 = Inr (w0\<lparr>balances := \<lparr>available = 0, locked = 40, pending = 7\<rparr>\<rparr>)"
    "deductFunds w0 101 = Inl InsufficientAvailableFunds"
    "addFunds w0 5 = Inr (w0\<lparr>balances := \<lparr>available = 105, locked = 40, pending = 7\<rparr>\<rparr>)"
    by code_simp+
  show ?thesis
    using ledger_primitive_contracts [of w0 60] ledger_primitive_contracts [of w0 101]
      ledger_primitive_contracts [of w0 40] ledger_primitive_contracts [of w0 41]
      ledger_primitive_contracts [of w0 100] ledger_primitive_contracts [of w0 5] n c
    by simp
qed

section \<open>Rail selection\<close>



section \<open>Webhook retry\<close>

lemma send_loop_success:
  "attempt < maxRetries \<Longrightarrow> post posts = Some st \<Longrightarrow>
   send_loop post attempt posts sleeps = (Delivered (attempt + 1) st, posts + 1, sleeps)"
  by (subst send_loop.simps) simp

lemma send_loop_retry:
  "attempt + 1 < maxRetries \<Longrightarrow> post posts = None \<Longrightarrow>
   send_loop post attempt posts sleeps =
     send_loop post (attempt + 1) (posts + 1) (sleeps @ [retryDelays ! attempt])"
  by (subst send_loop.simps) simp

lemma send_loop_last_failure:
  "attempt < maxRetries \<Longrightarrow> \<not> attempt + 1 < maxRetries \<Longrightarrow> post posts = None \<Longrightarrow>
   send_loop post attempt posts sleeps = send_loop post (attempt + 1) (posts + 1) sleeps"
  by (subst send_loop.simps) simp

lemma send_loop_exhausted:
  "\<not> attempt < maxRetries \<Longrightarrow>
   send_loop post attempt posts sleeps = (DeliveryFailed attempt, posts, sleeps)"
  by (subst send_loop.simps) simp

text \<open>
  C9. An endpoint that fails twice and then succeeds is reported as delivered with
  attempt 3, after three calls and waits of 5 s and 15 s. An endpoint that always fails is
  reported as failed with three attempts, after exactly three calls and the same two
  waits: there is no wait after the last failure and no fourth call. The result is the
  report, the number of calls of \<open>axios.post\<close> and the delays waited, in milliseconds.
\<close>

theorem sendWebhook_retry:
  "(post 0 = None \<and> post 1 = None \<and> post 2 = Some st \<longrightarrow>
      sendWebhook post = (Delivered 3 st, 3, [5000, 15000]))
 \<and> ((\<forall>n. post n = None) \<longrightarrow>
      sendWebhook post = (DeliveryFailed 3, 3, [5000, 15000]))"
proof (intro conjI impI)
  assume h: "post 0 = None \<and> post 1 = None \<and> post 2 = Some st"
  have "send_loop post 0 0 [] = send_loop post 1 1 [5000]"
    using h send_loop_retry [of 0 post 0 "[]"]
    by (simp add: maxRetries_def retryDelays_def numeral_2_eq_2 numeral_3_eq_3)
  also have "\<dots> = send_loop post 2 2 [5000, 15000]"
    using h send_loop_retry [of 1 post 1 "[5000]"]
    by (simp add: maxRetries_def retryDelays_def numeral_2_eq_2 numeral_3_eq_3)
  also have "\<dots> = (Delivered 3 st, 3, [5000, 15000])"
    using h send_loop_success [of 2 post 2 st "[5000, 15000]"]
    by (simp add: maxRetries_def numeral_2_eq_2 numeral_3_eq_3)
  finally show "sendWebhook post = (Delivered 3 st, 3, [5000, 15000])"
    by (simp add: sendWebhook_def)
next
  assume h: "\<forall>n. post n = None"
  have "send_loop post 0 0 [] = send_loop post 1 1 [5000]"
    using h send_loop_retry [of 0 post 0 "[]"]
    by (simp add: maxRetries_def retryDelays_def numeral_2_eq_2 numeral_3_eq_3)
  also have "\<dots> = send_loop post 2 2 [5000, 15000]"
    using h send_loop_retry [of 1 post 1 "[5000]"]
    by (simp add: maxRetries_def retryDelays_def numeral_2_eq_2 numeral_3_eq_3)
  also have "\<dots> = send_loop post 3 3 [5000, 15000]"
    using h send_loop_last_failure [of 2 post 2 "[5000, 15000]"]
    by (simp add: maxRetries_def numeral_2_eq_2 numeral_3_eq_3)
  also have "\<dots> = (DeliveryFailed 3, 3, [5000, 15000])"
    using send_loop_exhausted [of 3 post 3 "[5000, 15000]"]
    by (simp add: maxRetries_def numeral_2_eq_2 numeral_3_eq_3)
  finally show "sendWebhook post = (DeliveryFailed 3, 3, [5000, 15000])"
    by (simp add: sendWebhook_def)
qed

theorem sendWebhook_retry_witness:
  "sendWebhook (\<lambda>n. if n < 2 then None else Some 200) = (Delivered 3 200, 3, [5000, 15000])
 \<and> sendWebhook (\<lambda>n. None) = (DeliveryFailed 3, 3, [5000, 15000])"
  using sendWebhook_retry [of "\<lambda>n. if n < 2 then None else Some 200" 200]
    sendWebhook_retry [of "\<lambda>n. None"]
  by simp

section \<open>The escrow and refund scenarios\<close>

text \<open>
  C1. The escrow lifecycle scenario, on the store with wallet A (15,000 available) and
  wallet B (nothing). \<open>createEscrow\<close> for 10,000 answers 500 and leaves the store as it
  was: the hold transaction names the payment method \<open>escrow\<close>, which the schema's
  \<open>enum\<close> does not have, so its \<open>save()\<close> is rejected before any fund is locked. Wallet
  A keeps 15,000 available and nothing locked, no escrow exists, and fulfilling the
  condition answers 404. On the store that the scenario describes after the creation,
  fulfilling the condition answers 500 and changes nothing, because the conditions are
  strings; \<open>releaseEscrow\<close> turns the request away while the escrow has a condition; and
  on an escrow with no conditions it moves the funds (A keeps 5,000 with nothing locked,
  B receives 9,800), sets the status \<open>released\<close> and then answers 500 without
  recording the release transaction.
\<close>

theorem escrow_lifecycle_scenario:
  "createEscrow ''payer'' ''e1'' ''t1'' body0 db0 = ((500, ''Failed to create escrow''), db0)
 \<and> fulfillCondition ''payee'' ''esc_e1'' ''c1'' ''payee'' None db0 =
      ((404, ''Escrow not found''), db0)
 \<and> run False [CreateEscrow ''payer'' ''e1'' ''t1'' body0,
               FulfillCondition ''payee'' ''esc_e1'' ''c1'' ''payee'' None] db0 = db0
 \<and> run True [CreateEscrow ''payer'' ''e1'' ''t1'' body0,
              FulfillCondition ''payee'' ''esc_e1'' ''c1'' ''payee'' None] db0 = db0
 \<and> map balances (wallets db0) =
      [\<lparr>available = 15000, locked = 0, pending = 0\<rparr>, \<lparr>available = 0, locked = 0, pending = 0\<rparr>]
 \<and> escrows db0 = []
 \<and> fulfillCondition ''payee'' ''esc_e1'' ''c1'' ''payee'' None (db_held [''delivery'']) =
      ((500, ''Failed to fulfill condition''), db_held [''delivery''])
 \<and> releaseEscrow ''payer'' ''r1'' ''esc_e1'' (db_held [''delivery'']) =
      ((400, ''Not all conditions fulfilled''), db_held [''delivery''])
 \<and> releaseEscrow ''payer'' ''r1'' ''esc_e1'' (db_held []) =
      ((500, ''Failed to release escrow funds''),
       \<lparr>wallets = [walletA\<lparr>balances := \<lparr>available = 5000, locked = 0, pending = 0\<rparr>\<rparr>,
                   walletB\<lparr>balances := \<lparr>available = 9800, locked = 0, pending = 0\<rparr>\<rparr>],
        transactions = [hold_txn], escrows = [escrow1 [] Released]\<rparr>)"
  by code_simp

text \<open>
  C2. The refund scenario, on the same store. \<open>createEscrow\<close> answers 500 as in C1, so
  the refund finds no escrow and answers 404: wallet A is at 15,000 and nothing locked
  because nothing ever moved, and no escrow has the status \<open>refunded\<close>. On the store
  that the scenario describes after the creation (5,000 available, 10,000 locked),
  \<open>refundEscrow\<close> unlocks the 10,000 and then adds the amount of the hold transaction
  again: wallet A ends at 25,000 available, the escrow is \<open>refunded\<close>, and the handler
  answers 500 without recording the refund transaction, whose \<open>save()\<close> is rejected.
\<close>

theorem refund_scenario:
  "createEscrow ''payer'' ''e1'' ''t1'' body0 db0 = ((500, ''Failed to create escrow''), db0)
 \<and> refundEscrow ''payer'' ''r1'' ''esc_e1'' (Some ''buyer changed mind'') db0 =
      ((404, ''Escrow not found''), db0)
 \<and> run False [CreateEscrow ''payer'' ''e1'' ''t1'' body0,
               RefundEscrow ''payer'' ''r1'' ''esc_e1'' (Some ''buyer changed mind'')] db0 = db0
 \<and> escrows db0 = []
 \<and> map balances (wallets (db_held [''delivery''])) =
      [\<lparr>available = 5000, locked = 10000, pending = 0\<rparr>,
       \<lparr>available = 0, locked = 0, pending = 0\<rparr>]
 \<and> refundEscrow ''payer'' ''r1'' ''esc_e1'' (Some ''buyer changed mind'') (db_held [''delivery'']) =
      ((500, ''Failed to refund escrow''),
       \<lparr>wallets = [walletA\<lparr>balances := \<lparr>available = 25000, locked = 0, pending = 0\<rparr>\<rparr>, walletB],
        transactions = [hold_txn], escrows = [escrow1 [''delivery''] Refunded]\<rparr>)"
  by code_simp


section \<open>Handlers whose first save is rejected\<close>

lemma createTransaction_invalid: "\<not> Transaction_valid t \<Longrightarrow> createTransaction t d = Inl ValidationError"
  by (simp add: createTransaction_def Transaction_save_def)

lemma createEscrow_unchanged: "snd (createEscrow userId uuid1 uuid2 body d) = d"
  unfolding createEscrow_def Let_def
  by (auto split: option.splits
        simp: createTransaction_invalid Transaction_valid_def payment_method_valid_def
          payment_methods_def List.member_iff)

lemma fulfillCondition_unchanged:
  "snd (fulfillCondition userId escrowId conditionId fulfilledBy items d) = d"
  unfolding fulfillCondition_def
  by (auto split: option.splits simp: Escrow_fulfillCondition_def conditions_id_def)

lemma transferFunds_unchanged: "snd (transferFunds userId uuid amt recipientWalletId ccy d) = d"
  unfolding transferFunds_def Let_def
  by (auto split: option.splits
        simp: createTransaction_invalid Transaction_valid_def transaction_types_def List.member_iff)

lemma fundWallet_unchanged:
  "snd (fundWallet userId uuid walletId amt ccy paymentMethod mpesaReply d) = d"
  unfolding fundWallet_def Let_def
  by (auto split: option.splits
        simp: createTransaction_invalid Transaction_valid_def transaction_types_def List.member_iff)

lemma withdrawFromWallet_unchanged:
  "snd (withdrawFromWallet userId uuid walletId amt paymentMethod d) = d"
  unfolding withdrawFromWallet_def Let_def
  by (auto split: option.splits
        simp: createTransaction_invalid Transaction_valid_def transaction_types_def List.member_iff)

section \<open>Facts about the store\<close>

lemma in_replace_first: "x \<in> set (replace_first P y xs) \<Longrightarrow> x = y \<or> x \<in> set xs"
  by (induction xs) (auto split: if_splits)

lemma in_update_first:
  "x \<in> set (update_first P f xs) \<Longrightarrow> x \<in> set xs \<or> (\<exists>y \<in> set xs. x = f y)"
  by (induction xs) (auto split: if_splits)

lemma find_in_set: "find P xs = Some x \<Longrightarrow> x \<in> set xs"
  by (induction xs) (auto split: if_splits)

lemma find_sat: "find P xs = Some x \<Longrightarrow> P x"
  by (induction xs) (auto split: if_splits)

lemma Wallet_save_Inr: "Wallet_save w = Inr w' \<Longrightarrow> w' = w \<and> nonneg w"
  by (auto simp: Wallet_save_def split: if_splits)

lemma nonneg_lockFunds: "lockFunds w a = Inr w' \<Longrightarrow> nonneg w'"
  by (auto simp: lockFunds_def dest: Wallet_save_Inr split: if_splits)

lemma nonneg_unlockFunds: "unlockFunds w a = Inr w' \<Longrightarrow> nonneg w'"
  by (auto simp: unlockFunds_def dest: Wallet_save_Inr split: if_splits)

lemma nonneg_releaseFunds: "releaseFunds w a = Inr w' \<Longrightarrow> nonneg w'"
  by (auto simp: releaseFunds_def dest: Wallet_save_Inr split: if_splits)

lemma nonneg_deductFunds: "deductFunds w a = Inr w' \<Longrightarrow> nonneg w'"
  by (auto simp: deductFunds_def dest: Wallet_save_Inr split: if_splits)

lemma nonneg_addFunds: "addFunds w a = Inr w' \<Longrightarrow> nonneg w'"
  by (auto simp: addFunds_def dest: Wallet_save_Inr split: if_splits)

lemma createTransaction_Inr:
  "createTransaction t d = Inr (t1, d1) \<Longrightarrow>
   Transaction_valid t \<and> t1 = pre_save True t \<and> findTransaction (transaction_id t1) (transactions d) = None
   \<and> d1 = d\<lparr>transactions := transactions d @ [t1]\<rparr>"
  by (auto simp: createTransaction_def Transaction_save_def insertTransaction_def
        split: if_splits sum.splits)

lemma updateTransaction_Inr:
  "updateTransaction t d = Inr (t1, d1) \<Longrightarrow>
   Transaction_valid t \<and> t1 = t \<and> d1 = saveTransaction t d"
  by (auto simp: updateTransaction_def Transaction_save_def pre_save_def split: if_splits)

lemma Escrow_save_Inr: "Escrow_save e = Inr e' \<Longrightarrow> e' = e \<and> Escrow_valid e"
  by (auto simp: Escrow_save_def split: if_splits)

lemma wallets_saveTransaction [simp]: "wallets (saveTransaction t d) = wallets d"
  by (simp add: saveTransaction_def)

lemma wallets_saveEscrow [simp]: "wallets (saveEscrow e d) = wallets d"
  by (simp add: saveEscrow_def)

lemma transactions_saveWallet [simp]: "transactions (saveWallet l w d) = transactions d"
  by (simp add: saveWallet_def)

lemma transactions_saveEscrow [simp]: "transactions (saveEscrow e d) = transactions d"
  by (simp add: saveEscrow_def)

lemma escrows_saveWallet [simp]: "escrows (saveWallet l w d) = escrows d"
  by (simp add: saveWallet_def)

lemma escrows_saveTransaction [simp]: "escrows (saveTransaction t d) = escrows d"
  by (simp add: saveTransaction_def)

section \<open>Preservation of non-negative balances\<close>

lemma nonneg_write_balances:
  "nonneg w \<Longrightarrow> nonneg x \<Longrightarrow> nonneg (x\<lparr>balances := write_balances l (balances w) (balances x)\<rparr>)"
  by (simp add: nonneg_def write_balances_def)

lemma wallets_ok_saveWallet: "nonneg w \<Longrightarrow> wallets_ok d \<Longrightarrow> wallets_ok (saveWallet l w d)"
  unfolding wallets_ok_def saveWallet_def
  by (auto dest!: in_update_first intro: nonneg_write_balances)

lemma wallets_ok_saveTransaction [simp]: "wallets_ok (saveTransaction t d) = wallets_ok d"
  by (simp add: wallets_ok_def)

lemma wallets_ok_saveEscrow [simp]: "wallets_ok (saveEscrow e d) = wallets_ok d"
  by (simp add: wallets_ok_def)

lemma wallets_ok_createTransaction:
  "createTransaction t d = Inr (t1, d1) \<Longrightarrow> wallets_ok d \<Longrightarrow> wallets_ok d1"
  by (auto dest!: createTransaction_Inr simp: wallets_ok_def)

lemma wallets_ok_updateTransaction:
  "updateTransaction t d = Inr (t1, d1) \<Longrightarrow> wallets_ok d \<Longrightarrow> wallets_ok d1"
  by (auto dest!: updateTransaction_Inr)

lemma wallets_ok_transactions [simp]: "wallets_ok (d\<lparr>transactions := ts\<rparr>) = wallets_ok d"
  by (simp add: wallets_ok_def)

lemma wallets_ok_escrows [simp]: "wallets_ok (d\<lparr>escrows := es\<rparr>) = wallets_ok d"
  by (simp add: wallets_ok_def)

lemmas nonneg_dests = nonneg_lockFunds nonneg_unlockFunds nonneg_releaseFunds nonneg_deductFunds
  nonneg_addFunds

lemmas save_dests = createTransaction_Inr updateTransaction_Inr Escrow_save_Inr

lemma wallets_ok_release_moves:
  "wallets_ok d \<Longrightarrow> wallets_ok (snd (release_moves uuid esc1 t payerWallet payeeWallet d))"
  unfolding release_moves_def Let_def
  by (auto split: sum.splits intro!: wallets_ok_saveWallet dest!: save_dests nonneg_dests)

lemma wallets_ok_releaseEscrow:
  "wallets_ok d \<Longrightarrow> wallets_ok (snd (releaseEscrow userId uuid escrowId d))"
  unfolding releaseEscrow_def
  by (auto split: option.splits sum.splits intro: wallets_ok_release_moves)

lemma wallets_ok_refund_moves:
  "wallets_ok d \<Longrightarrow> wallets_ok (snd (refund_moves uuid esc1 t payerWallet d))"
  unfolding refund_moves_def Let_def
  by (auto split: sum.splits intro!: wallets_ok_saveWallet dest!: save_dests nonneg_dests)

lemma wallets_ok_refundEscrow:
  "wallets_ok d \<Longrightarrow> wallets_ok (snd (refundEscrow userId uuid escrowId why d))"
  unfolding refundEscrow_def
  by (auto split: option.splits sum.splits intro: wallets_ok_refund_moves)

lemma wallets_ok_raiseDispute:
  "wallets_ok d \<Longrightarrow> wallets_ok (snd (raiseDispute userId uuid escrowId why descr d))"
  unfolding raiseDispute_def
  by (auto split: option.splits sum.splits)

lemma wallets_ok_provider_call:
  "wallets_ok d \<Longrightarrow> wallets_ok (snd (provider_call dst net mpesaReply d))"
  unfolding provider_call_def processWalletPayout_def processMpesaPayout_def
    processBankPayout_def
  by (auto split: option.splits sum.splits dest: Wallet_save_Inr intro: wallets_ok_saveWallet)

lemma wallets_ok_payout_debit_rejected:
  "payout_debit userId uuid body d = Inl (r, d') \<Longrightarrow> wallets_ok d \<Longrightarrow> wallets_ok d'"
  unfolding payout_debit_def Let_def
  by (auto split: option.splits sum.splits if_splits prod.splits intro!: wallets_ok_saveWallet dest!: save_dests nonneg_dests)

lemma wallets_ok_payout_debit_accepted:
  "payout_debit userId uuid body d = Inr (dst, w1, t, net, tot, d2) \<Longrightarrow> wallets_ok d \<Longrightarrow>
   wallets_ok d2"
  unfolding payout_debit_def Let_def
  by (auto split: option.splits sum.splits if_splits prod.splits intro!: wallets_ok_saveWallet dest!: save_dests nonneg_dests)

lemma wallets_ok_payout_failed:
  "wallets_ok d \<Longrightarrow> wallets_ok (snd (payout_failed w1 t tot msg d))"
  unfolding payout_failed_def
  by (auto split: sum.splits intro!: wallets_ok_saveWallet dest!: save_dests nonneg_dests)

lemma wallets_ok_payout_settle:
  "wallets_ok d2 \<Longrightarrow> wallets_ok (snd (payout_settle mpesaReply (dst, w1, t, net, tot, d2)))"
  unfolding payout_settle_def
  using wallets_ok_provider_call [of d2 dst net mpesaReply]
  by (auto split: sum.splits prod.splits intro!: wallets_ok_saveWallet wallets_ok_payout_failed dest!: save_dests nonneg_dests)

lemma wallets_ok_createPayout:
  "wallets_ok d \<Longrightarrow> wallets_ok (snd (createPayout userId uuid mpesaReply body d))"
proof (cases "payout_debit userId uuid body d")
  case (Inl answer)
  assume "wallets_ok d"
  then show ?thesis
    using Inl wallets_ok_payout_debit_rejected [of userId uuid body d "fst answer" "snd answer"]
    by (simp add: createPayout_def)
next
  case (Inr ctx)
  assume ok: "wallets_ok d"
  obtain dst w1 t net tot d2 where c: "ctx = (dst, w1, t, net, tot, d2)"
    by (cases ctx) auto
  have "wallets_ok d2" using Inr c ok by (auto intro: wallets_ok_payout_debit_accepted)
  then show ?thesis using Inr c by (simp add: createPayout_def wallets_ok_payout_settle)
qed

lemma wallets_ok_cancelPayout:
  "wallets_ok d \<Longrightarrow> wallets_ok (snd (cancelPayout sq userId payoutId d))"
  unfolding cancelPayout_def
  by (auto split: option.splits sum.splits intro!: wallets_ok_saveWallet dest!: save_dests nonneg_dests)

lemma wallets_ok_handle: "wallets_ok d \<Longrightarrow> wallets_ok (snd (handle sq r d))"
  by (cases r)
     (simp_all add: createEscrow_unchanged fulfillCondition_unchanged transferFunds_unchanged
        fundWallet_unchanged withdrawFromWallet_unchanged wallets_ok_releaseEscrow
        wallets_ok_refundEscrow wallets_ok_raiseDispute wallets_ok_createPayout
        wallets_ok_cancelPayout)

lemma wallets_ok_run: "wallets_ok d \<Longrightarrow> wallets_ok (run sq rs d)"
  by (induction rs arbitrary: d) (simp_all add: wallets_ok_handle)

section \<open>Preservation of the fee invariant\<close>

lemma fee_invariant_pre_save: "fee_invariant (pre_save True t)"
  by (simp add: fee_invariant_def pre_save_def Let_def)

lemma pre_save_False: "pre_save False t = t"
  by (simp add: pre_save_def)

lemma fee_invariant_status: "fee_invariant t \<Longrightarrow> fee_invariant (t\<lparr>status := s\<rparr>)"
  by (simp add: fee_invariant_def)

lemma fee_invariant_status_reason:
  "fee_invariant t \<Longrightarrow> fee_invariant (t\<lparr>status := s, failure_reason := why\<rparr>)"
  by (simp add: fee_invariant_def)

lemma fees_ok_wallets [simp]: "fees_ok (d\<lparr>wallets := ws\<rparr>) = fees_ok d"
  by (simp add: fees_ok_def)

lemma fees_ok_escrows [simp]: "fees_ok (d\<lparr>escrows := es\<rparr>) = fees_ok d"
  by (simp add: fees_ok_def)

lemma fees_ok_saveWallet [simp]: "fees_ok (saveWallet l w d) = fees_ok d"
  by (simp add: fees_ok_def)

lemma fees_ok_saveEscrow [simp]: "fees_ok (saveEscrow e d) = fees_ok d"
  by (simp add: fees_ok_def)

lemma fees_ok_createTransaction:
  "createTransaction t d = Inr (t1, d1) \<Longrightarrow> fees_ok d \<Longrightarrow> fees_ok d1 \<and> fee_invariant t1"
  by (auto dest!: createTransaction_Inr simp: fees_ok_def fee_invariant_pre_save)

lemma fees_ok_saveTransaction: "fee_invariant t \<Longrightarrow> fees_ok d \<Longrightarrow> fees_ok (saveTransaction t d)"
  unfolding fees_ok_def saveTransaction_def by (auto dest!: in_replace_first)

lemma fees_ok_updateTransaction:
  "updateTransaction t d = Inr (t1, d1) \<Longrightarrow> fee_invariant t \<Longrightarrow> fees_ok d \<Longrightarrow>
   fees_ok d1 \<and> fee_invariant t1"
  by (auto dest!: updateTransaction_Inr intro: fees_ok_saveTransaction)

lemma fees_ok_find: "fees_ok d \<Longrightarrow> find P (transactions d) = Some t \<Longrightarrow> fee_invariant t"
  by (auto simp: fees_ok_def dest: find_in_set)

lemma fees_ok_release_moves:
  "fees_ok d \<Longrightarrow> fees_ok (snd (release_moves uuid esc1 t payerWallet payeeWallet d))"
  unfolding release_moves_def Let_def
  by (auto split: sum.splits dest!: fees_ok_createTransaction)

lemma fees_ok_releaseEscrow: "fees_ok d \<Longrightarrow> fees_ok (snd (releaseEscrow userId uuid escrowId d))"
  unfolding releaseEscrow_def
  by (auto split: option.splits sum.splits intro!: fees_ok_release_moves)

lemma fees_ok_refund_moves:
  "fees_ok d \<Longrightarrow> fees_ok (snd (refund_moves uuid esc1 t payerWallet d))"
  unfolding refund_moves_def Let_def
  by (auto split: sum.splits dest!: fees_ok_createTransaction)

lemma fees_ok_refundEscrow:
  "fees_ok d \<Longrightarrow> fees_ok (snd (refundEscrow userId uuid escrowId why d))"
  unfolding refundEscrow_def
  by (auto split: option.splits sum.splits intro!: fees_ok_refund_moves)

lemma fees_ok_raiseDispute:
  "fees_ok d \<Longrightarrow> fees_ok (snd (raiseDispute userId uuid escrowId why descr d))"
  unfolding raiseDispute_def
  by (auto split: option.splits sum.splits)

lemma fees_ok_provider_call:
  "fees_ok (snd (provider_call dst net mpesaReply d)) = fees_ok d"
  unfolding provider_call_def processWalletPayout_def processMpesaPayout_def
    processBankPayout_def
  by (auto split: option.splits sum.splits)

lemma fees_ok_payout_debit_rejected:
  "payout_debit userId uuid body d = Inl (r, d') \<Longrightarrow> fees_ok d \<Longrightarrow> fees_ok d'"
  unfolding payout_debit_def Let_def
  by (auto split: option.splits sum.splits if_splits prod.splits dest!: fees_ok_createTransaction)

lemma fees_ok_payout_debit_accepted:
  "payout_debit userId uuid body d = Inr (dst, w1, t, net, tot, d2) \<Longrightarrow> fees_ok d \<Longrightarrow>
   fees_ok d2 \<and> fee_invariant t"
  unfolding payout_debit_def Let_def
  by (auto split: option.splits sum.splits if_splits prod.splits dest!: fees_ok_createTransaction)

lemma fees_ok_payout_failed:
  "fee_invariant t \<Longrightarrow> fees_ok d \<Longrightarrow> fees_ok (snd (payout_failed w1 t tot msg d))"
  unfolding payout_failed_def
  using fees_ok_updateTransaction [of "t\<lparr>status := Failed, failure_reason := Some msg\<rparr>" d]
  by (auto split: sum.splits simp: fee_invariant_status_reason)

lemma fees_ok_payout_settle:
  assumes "fee_invariant t" and "fees_ok d2"
  shows "fees_ok (snd (payout_settle mpesaReply (dst, w1, t, net, tot, d2)))"
proof (cases "provider_call dst net mpesaReply d2")
  case (Pair answer d3)
  have ok: "fees_ok d3" using assms Pair fees_ok_provider_call [of dst net mpesaReply d2] by simp
  show ?thesis
  proof (cases answer)
    case (Inl msg)
    then show ?thesis using Pair ok assms
      by (simp add: payout_settle_def fees_ok_payout_failed)
  next
    case (Inr st)
    show ?thesis
    proof (cases "updateTransaction (t\<lparr>status := st\<rparr>) d3")
      case (Inl err)
      then show ?thesis using Pair Inr ok assms
        by (simp add: payout_settle_def fees_ok_payout_failed fee_invariant_status)
    next
      case (Inr res)
      then show ?thesis
        using Pair \<open>answer = Inr st\<close> ok assms
          fees_ok_updateTransaction [of "t\<lparr>status := st\<rparr>" d3 "fst res" "snd res"]
        by (simp add: payout_settle_def fee_invariant_status split_def)
    qed
  qed
qed

lemma fees_ok_createPayout:
  "fees_ok d \<Longrightarrow> fees_ok (snd (createPayout userId uuid mpesaReply body d))"
proof (cases "payout_debit userId uuid body d")
  case (Inl answer)
  assume "fees_ok d"
  then show ?thesis
    using Inl fees_ok_payout_debit_rejected [of userId uuid body d "fst answer" "snd answer"]
    by (simp add: createPayout_def)
next
  case (Inr ctx)
  assume ok: "fees_ok d"
  obtain dst w1 t net tot d2 where c: "ctx = (dst, w1, t, net, tot, d2)"
    by (cases ctx) auto
  have "fees_ok d2 \<and> fee_invariant t"
    using Inr c ok fees_ok_payout_debit_accepted [of userId uuid body d dst w1 t net tot d2]
    by simp
  then show ?thesis using Inr c by (simp add: createPayout_def fees_ok_payout_settle)
qed

lemma fees_ok_cancelPayout:
  assumes "fees_ok d"
  shows "fees_ok (snd (cancelPayout sq userId payoutId d))"
proof -
  have u: "\<And>t t1 d1. updateTransaction (t\<lparr>status := Cancelled\<rparr>) d = Inr (t1, d1) \<Longrightarrow>
      fee_invariant t \<Longrightarrow> fees_ok d1"
    using assms fees_ok_updateTransaction fee_invariant_status by blast
  show ?thesis
    unfolding cancelPayout_def using assms
    by (auto split: option.splits sum.splits if_splits dest: u fees_ok_find)
qed

lemma fees_ok_handle: "fees_ok d \<Longrightarrow> fees_ok (snd (handle sq r d))"
  by (cases r)
     (simp_all add: createEscrow_unchanged fulfillCondition_unchanged transferFunds_unchanged
        fundWallet_unchanged withdrawFromWallet_unchanged fees_ok_releaseEscrow
        fees_ok_refundEscrow fees_ok_raiseDispute fees_ok_createPayout fees_ok_cancelPayout)

lemma fees_ok_run: "fees_ok d \<Longrightarrow> fees_ok (run sq rs d)"
  by (induction rs arbitrary: d) (simp_all add: fees_ok_handle)

section \<open>Preservation of the release settings\<close>

lemma escrows_ok_wallets [simp]: "escrows_ok (d\<lparr>wallets := ws\<rparr>) = escrows_ok d"
  by (simp add: escrows_ok_def)

lemma escrows_ok_transactions [simp]: "escrows_ok (d\<lparr>transactions := ts\<rparr>) = escrows_ok d"
  by (simp add: escrows_ok_def)

lemma escrows_ok_saveWallet [simp]: "escrows_ok (saveWallet l w d) = escrows_ok d"
  by (simp add: escrows_ok_def)

lemma escrows_ok_saveTransaction [simp]: "escrows_ok (saveTransaction t d) = escrows_ok d"
  by (simp add: escrows_ok_def)























section \<open>Non-negative balances\<close>

text \<open>
  C4. Non-negativity. A ledger primitive that succeeds returns a wallet whose available,
  locked and pending balances are non-negative, because its \<open>save()\<close> has validated
  them; this holds for every amount and every wallet, hence for non-negative amounts on
  non-negative balances. And from any store whose wallets have non-negative balances,
  every sequence of requests to the handlers (escrow creation, condition fulfilment,
  release, refund, dispute, transfer, funding, withdrawal, payout, payout cancellation),
  with any amounts and under either query setting, leads to a store whose wallets have
  non-negative balances.
\<close>

theorem balances_never_negative:
  "(\<forall>w'. lockFunds w a = Inr w' \<longrightarrow> nonneg w')
 \<and> (\<forall>w'. unlockFunds w a = Inr w' \<longrightarrow> nonneg w')
 \<and> (\<forall>w'. releaseFunds w a = Inr w' \<longrightarrow> nonneg w')
 \<and> (\<forall>w'. deductFunds w a = Inr w' \<longrightarrow> nonneg w')
 \<and> (\<forall>w'. addFunds w a = Inr w' \<longrightarrow> nonneg w')
 \<and> ((\<forall>x \<in> set (wallets d). nonneg x) \<longrightarrow>
      (\<forall>x \<in> set (wallets (run sq rs d)).
          0 \<le> available (balances x) \<and> 0 \<le> locked (balances x) \<and> 0 \<le> pending (balances x)))"
proof (intro conjI impI allI)
  assume "\<forall>x \<in> set (wallets d). nonneg x"
  then have "wallets_ok d" by (simp add: wallets_ok_def)
  then have "wallets_ok (run sq rs d)" by (rule wallets_ok_run)
  then show "\<forall>x \<in> set (wallets (run sq rs d)).
          0 \<le> available (balances x) \<and> 0 \<le> locked (balances x) \<and> 0 \<le> pending (balances x)"
    by (simp add: wallets_ok_def nonneg_def)
qed (auto dest: nonneg_dests)

theorem balances_never_negative_witness:
  "list_all nonneg (wallets db0)
 \<and> deductFunds walletA 1015 =
      Inr (walletA\<lparr>balances := \<lparr>available = 13985, locked = 0, pending = 0\<rparr>\<rparr>)
 \<and> nonneg (walletA\<lparr>balances := \<lparr>available = 13985, locked = 0, pending = 0\<rparr>\<rparr>)
 \<and> map balances (wallets (run False [CreatePayout ''payer'' ''p1'' (Some ''conv1'') payout0,
                                      CreatePayout ''payer'' ''p2'' None payoutB] db0)) =
      [\<lparr>available = 13485, locked = 0, pending = 0\<rparr>, \<lparr>available = 500, locked = 0, pending = 0\<rparr>]
 \<and> list_all (\<lambda>x. 0 \<le> available (balances x) \<and> 0 \<le> locked (balances x)
                  \<and> 0 \<le> pending (balances x))
      (wallets (run False [CreatePayout ''payer'' ''p1'' (Some ''conv1'') payout0,
                           CreatePayout ''payer'' ''p2'' None payoutB] db0))"
proof -
  have c: "list_all nonneg (wallets db0)"
    "deductFunds walletA 1015 =
      Inr (walletA\<lparr>balances := \<lparr>available = 13985, locked = 0, pending = 0\<rparr>\<rparr>)"
    "map balances (wallets (run False [CreatePayout ''payer'' ''p1'' (Some ''conv1'') payout0,
                                      CreatePayout ''payer'' ''p2'' None payoutB] db0)) =
      [\<lparr>available = 13485, locked = 0, pending = 0\<rparr>, \<lparr>available = 500, locked = 0, pending = 0\<rparr>]"
    by code_simp+
  have h: "\<forall>x \<in> set (wallets db0). nonneg x" using c(1) by (simp add: list_all_iff)
  note inst = balances_never_negative [of walletA 1015 db0 False
      "[CreatePayout ''payer'' ''p1'' (Some ''conv1'') payout0,
        CreatePayout ''payer'' ''p2'' None payoutB]"]
  have n: "nonneg (walletA\<lparr>balances := \<lparr>available = 13985, locked = 0, pending = 0\<rparr>\<rparr>)"
    using inst c(2) by blast
  have r: "list_all (\<lambda>x. 0 \<le> available (balances x) \<and> 0 \<le> locked (balances x)
                  \<and> 0 \<le> pending (balances x))
      (wallets (run False [CreatePayout ''payer'' ''p1'' (Some ''conv1'') payout0,
                           CreatePayout ''payer'' ''p2'' None payoutB] db0))"
    using inst h unfolding list_all_iff by blast
  show ?thesis using c n r by simp
qed

section \<open>Fee invariant of persisted transactions\<close>

text \<open>
  C5. The fee invariant of persisted transactions, in the arithmetic of the language.
  The pre-save middleware recomputes \<open>total_fee\<close> and \<open>net_amount\<close> whenever the fees of
  the document are modified, so what an accepted \<open>save()\<close> of a new transaction hands to
  the store has \<open>total_fee = processing_fee + platform_fee\<close> and
  \<open>net_amount = amount - total_fee\<close>; a later save that changes only the status keeps
  both equations; and from a store whose transactions satisfy them, every sequence of
  requests leads to a store whose transactions satisfy them.
\<close>

theorem transaction_fee_invariant:
  "fee_invariant (pre_save True t)
 \<and> (\<forall>t'. Transaction_save True t = Inr t' \<longrightarrow> fee_invariant t')
 \<and> (fee_invariant t \<longrightarrow> (\<forall>t'. Transaction_save False (t\<lparr>status := s\<rparr>) = Inr t' \<longrightarrow> fee_invariant t'))
 \<and> ((\<forall>t \<in> set (transactions d). fee_invariant t) \<longrightarrow>
      (\<forall>t \<in> set (transactions (run sq rs d)).
          total_fee (fees t) = dadd (processing_fee (fees t)) (platform_fee (fees t))
        \<and> net_amount t = dsub (amount t) (total_fee (fees t))))"
proof (intro conjI impI allI)
  assume "\<forall>t \<in> set (transactions d). fee_invariant t"
  then have "fees_ok d" by (simp add: fees_ok_def)
  then have "fees_ok (run sq rs d)" by (rule fees_ok_run)
  then show "\<forall>t \<in> set (transactions (run sq rs d)).
          total_fee (fees t) = dadd (processing_fee (fees t)) (platform_fee (fees t))
        \<and> net_amount t = dsub (amount t) (total_fee (fees t))"
    by (simp add: fees_ok_def fee_invariant_def)
qed (auto simp: fee_invariant_pre_save fee_invariant_status Transaction_save_def pre_save_False
       split: if_splits)

theorem transaction_fee_invariant_witness:
  "transactions db0 = []
 \<and> Transaction_save True
      (payout_Transaction ''payout_p1'' ''A'' (dest_of ''mpesa'' \<lparr>phone := Some ''254700000000''\<rparr>)
         ''KES'' 15 985 1015) = Inr (payout_txn Pending None)
 \<and> map (\<lambda>t. (transaction_id t, status t, amount t, processing_fee (fees t),
              platform_fee (fees t), total_fee (fees t), net_amount t))
      (transactions (run False [CreatePayout ''payer'' ''p1'' (Some ''conv1'') payout0,
                                CreatePayout ''payer'' ''p2'' None payoutB] db0)) =
     [(''payout_p1'', Pending, 1015, 15, 0, 15, 1000), (''payout_p2'', Completed, 500, 0, 0, 0, 500)]
 \<and> list_all fee_invariant
      (transactions (run False [CreatePayout ''payer'' ''p1'' (Some ''conv1'') payout0,
                                CreatePayout ''payer'' ''p2'' None payoutB] db0))"
proof -
  have c: "transactions db0 = []"
    "Transaction_save True
      (payout_Transaction ''payout_p1'' ''A'' (dest_of ''mpesa'' \<lparr>phone := Some ''254700000000''\<rparr>)
         ''KES'' 15 985 1015) = Inr (payout_txn Pending None)"
    "map (\<lambda>t. (transaction_id t, status t, amount t, processing_fee (fees t),
              platform_fee (fees t), total_fee (fees t), net_amount t))
      (transactions (run False [CreatePayout ''payer'' ''p1'' (Some ''conv1'') payout0,
                                CreatePayout ''payer'' ''p2'' None payoutB] db0)) =
     [(''payout_p1'', Pending, 1015, 15, 0, 15, 1000), (''payout_p2'', Completed, 500, 0, 0, 0, 500)]"
    by code_simp+
  have h: "\<forall>t \<in> set (transactions db0). fee_invariant t" using c(1) by simp
  note inst = transaction_fee_invariant [of
      "payout_Transaction ''payout_p1'' ''A'' (dest_of ''mpesa'' \<lparr>phone := Some ''254700000000''\<rparr>)
         ''KES'' 15 985 1015" Pending db0 False
      "[CreatePayout ''payer'' ''p1'' (Some ''conv1'') payout0,
        CreatePayout ''payer'' ''p2'' None payoutB]"]
  have "\<forall>t \<in> set (transactions (run False [CreatePayout ''payer'' ''p1'' (Some ''conv1'') payout0,
                                CreatePayout ''payer'' ''p2'' None payoutB] db0)). fee_invariant t"
    using inst h unfolding fee_invariant_def by blast
  then have "list_all fee_invariant
      (transactions (run False [CreatePayout ''payer'' ''p1'' (Some ''conv1'') payout0,
                                CreatePayout ''payer'' ''p2'' None payoutB] db0))"
    by (simp add: list_all_iff)
  then show ?thesis using c by simp
qed

section \<open>Release settings of escrows\<close>



section \<open>Payout compensation\<close>

lemma find_owned: "find P xs = Some x \<Longrightarrow> Q x \<Longrightarrow> find (\<lambda>y. P y \<and> Q y) xs = Some x"
  by (induction xs) (auto split: if_splits)

lemma update_first_find:
  "find P xs = Some x \<Longrightarrow> update_first P f xs = replace_first P (f x) xs"
  by (induction xs) (auto split: if_splits)

lemma find_replace_first:
  "find P xs = Some x \<Longrightarrow> P y \<Longrightarrow> find P (replace_first P y xs) = Some y"
  by (induction xs) (auto split: if_splits)

lemma replace_first_twice:
  "P y \<Longrightarrow> replace_first P z (replace_first P y xs) = replace_first P z xs"
  by (induction xs) auto

lemma replace_first_same: "find P xs = Some x \<Longrightarrow> replace_first P x xs = xs"
  by (induction xs) (auto split: if_splits)

lemma replace_first_fresh:
  "find P xs = None \<Longrightarrow> P x \<Longrightarrow> replace_first P y (xs @ [x]) = xs @ [y]"
  by (induction xs) (auto split: if_splits)

lemma write_balances_loaded: "write_balances l s l = s"
  by (simp add: write_balances_def)

lemma provider_call_failure_store:
  "provider_call dst net mpesaReply d = (Inl msg, d3) \<Longrightarrow> d3 = d"
  by (auto simp: provider_call_def processWalletPayout_def processMpesaPayout_def
        processBankPayout_def split: if_splits option.splits sum.splits)

lemma length_uppercase: "length (uppercase s) = length s"
  by (simp add: uppercase_def)

lemma payout_Transaction_valid:
  assumes "uuid' \<noteq> []" and "0 \<le> tot" and "ccy \<noteq> []"
    and "dest_type dst \<in> {''mpesa'', ''bank'', ''wallet''}" and "dest_bank_account dst = None"
  shows "Transaction_valid (payout_Transaction uuid' src dst ccy feeAmount net tot)"
proof -
  have "uppercase ccy \<noteq> []" using assms(3) length_uppercase [of ccy] by auto
  then show ?thesis using assms
    by (auto simp: Transaction_valid_def payout_Transaction_def transaction_types_def
          payment_method_valid_def payment_methods_def List.member_iff)
qed

text \<open>
  C7, the claim as stated. It lets a failed payout leave the balances of the source
  wallet exactly as they were. Wallet C holds the double next to 10.1; a payout of the
  double next to 0.3045 to a wallet that does not exist is debited, fails at the
  provider, is credited back and answered with 400, and the wallet then holds
  10.100000000000001, the next double above the one it had.
\<close>

theorem payout_failure_compensated_counterexample:
  "available (balances walletC) = 5685794529555251 / 562949953421312
 \<and> cp_amount payoutC = 342836521633579 / 1125899906842624
 \<and> createPayout ''payer'' ''p1'' None payoutC dbC =
      ((400, ''Payout processing failed''),
       \<lparr>wallets = [walletC\<lparr>balances := \<lparr>available = 1421448632388813 / 140737488355328,
                                        locked = 0, pending = 0\<rparr>\<rparr>],
        transactions =
          [\<lparr>transaction_id = ''payout_p1'', txn_type = ''payout'', status = Failed,
            amount = 342836521633579 / 1125899906842624, txn_currency = ''KES'',
            fees = \<lparr>processing_fee = 0, platform_fee = 0, total_fee = 0\<rparr>,
            net_amount = 342836521633579 / 1125899906842624,
            source_wallet_id = Some ''C'', source_payment_method = Some ''wallet'',
            destination_wallet_id = None, destination_payment_method = Some ''wallet'',
            destination_bank_account = None, escrow_parties = None,
            failure_reason = Some ''Wallet transfer failed: Destination wallet not found''\<rparr>],
        escrows = []\<rparr>)
 \<and> (1421448632388813 / 140737488355328 :: rat) \<noteq> 5685794529555251 / 562949953421312
 \<and> wallets (snd (createPayout ''payer'' ''p1'' None payoutC dbC)) \<noteq> wallets dbC"
  by code_simp

text \<open>
  C7, amended to the arithmetic of the language. A payout request that names a wallet
  of the caller with non-negative balances, a destination of a supported type without a
  bank account object, a non-empty currency and a fresh payout id, and whose amount plus
  fee is non-negative and covered by the available balance, is debited: the transaction
  is recorded as \<open>pending\<close> with the amount plus the fee of the selected rail, and the
  source wallet is written with its available balance less that total, before the
  provider is called. When the provider call on that store fails, the handler answers
  400, the transaction is stored as \<open>failed\<close> with the provider's message, and the
  source wallet is written with the total added back: its available balance is the
  double sum of the double difference, \<open>(available - total) + total\<close>; locked and
  pending are untouched, and so is every other wallet. When that sum is the balance the
  wallet had, the wallets are exactly what they were before the payout.
\<close>

theorem payout_failure_compensated:
  assumes src: "cp_source_wallet_id body = Some src" "src \<noteq> []"
    and dst: "cp_destination body = Some dst"
      "dest_type dst \<in> {''mpesa'', ''bank'', ''wallet''}" "dest_bank_account dst = None"
    and amt: "cp_amount body \<noteq> 0"
    and ccy: "ccy = (case cp_currency body of None \<Rightarrow> ''KES'' | Some c \<Rightarrow> c)" "ccy \<noteq> []"
    and w: "findWallet src (wallets d) = Some w" "owner_id w = userId" "nonneg w"
    and fresh: "findTransaction (''payout_'' @ uuid) (transactions d) = None"
    and feeAmount: "feeAmount = fee (selectPaymentRail_double dst (cp_amount body) ccy)"
    and tot: "tot = dadd (cp_amount body) feeAmount" "0 \<le> tot" "tot \<le> available (balances w)"
    and t: "t = pre_save True (payout_Transaction (''payout_'' @ uuid) src dst ccy feeAmount
                                 (dsub (cp_amount body) feeAmount) tot)"
    and debited: "debited = w\<lparr>balances := (balances w)
                     \<lparr>available := dsub (available (balances w)) tot\<rparr>\<rparr>"
    and d2: "d2 = d\<lparr>wallets := replace_first (\<lambda>x. wallet_id x = src) debited (wallets d),
                     transactions := transactions d @ [t]\<rparr>"
    and failure: "provider_call dst (dsub (cp_amount body) feeAmount) mpesaReply d2 = (Inl msg, d3)"
    and restored: "restored = w\<lparr>balances := (balances w)
                     \<lparr>available := dadd (dsub (available (balances w)) tot) tot\<rparr>\<rparr>"
  shows "payout_debit userId uuid body d =
           Inr (dst, debited, t, dsub (cp_amount body) feeAmount, tot, d2)
       \<and> status t = Pending \<and> amount t = tot
       \<and> createPayout userId uuid mpesaReply body d =
           ((400, ''Payout processing failed''),
            d\<lparr>wallets := replace_first (\<lambda>x. wallet_id x = src) restored (wallets d),
              transactions := transactions d @ [t\<lparr>status := Failed, failure_reason := Some msg\<rparr>]\<rparr>)
       \<and> locked (balances restored) = locked (balances w)
       \<and> pending (balances restored) = pending (balances w)
       \<and> (dadd (dsub (available (balances w)) tot) tot = available (balances w) \<longrightarrow>
            wallets (snd (createPayout userId uuid mpesaReply body d)) = wallets d)"
proof -
  let ?P = "\<lambda>x. wallet_id x = src"
  let ?net = "dsub (cp_amount body) feeAmount"
  let ?t0 = "payout_Transaction (''payout_'' @ uuid) src dst ccy feeAmount ?net tot"
  have ids: "wallet_id w = src"
    using w(1) by (auto simp: findWallet_def dest: find_sat)
  have owned: "findOwnedWallet src userId (wallets d) = Some w"
    using w(1,2) unfolding findWallet_def findOwnedWallet_def by (rule find_owned)
  have valid: "Transaction_valid ?t0"
    using tot(2) ccy(2) dst(2,3) by (intro payout_Transaction_valid) auto
  have tid: "transaction_id t = ''payout_'' @ uuid"
    by (simp add: t pre_save_def payout_Transaction_def Let_def)
  have d1: "createTransaction ?t0 d = Inr (t, d\<lparr>transactions := transactions d @ [t]\<rparr>)"
    using valid fresh tid
    by (simp add: createTransaction_def Transaction_save_def insertTransaction_def t)
  have nd: "nonneg debited"
    using w(3) tot(3) by (simp add: nonneg_def debited dsub_nonneg)
  have deduct: "deductFunds w tot = Inr debited"
    using nd tot(3) by (simp add: deductFunds_def Wallet_save_def debited)
  have wid: "wallet_id debited = src" "wallet_id restored = src"
    using ids by (simp_all add: debited restored)
  have wr1: "w\<lparr>balances := write_balances (balances w) (balances debited) (balances w)\<rparr> = debited"
    by (simp add: write_balances_loaded debited)
  have save1: "saveWallet w debited (d\<lparr>transactions := transactions d @ [t]\<rparr>) = d2"
    using w(1) wid wr1
    by (simp add: saveWallet_def d2 findWallet_def update_first_find)
  have member: "List.member [''mpesa'', ''bank'', ''wallet''] (dest_type dst)"
    using dst(2) by (auto simp: List.member_iff)
  have nonempty: "dest_type dst \<noteq> []" using dst(2) by auto
  have debit: "payout_debit userId uuid body d = Inr (dst, debited, t, ?net, tot, d2)"
    using src dst(1) amt owned member nonempty tot(3) d1 deduct save1
    by (simp add: payout_debit_def Let_def hasSufficientFunds_def ccy [symmetric]
          feeAmount [symmetric] tot(1) [symmetric])
  have st: "status t = Pending" "amount t = tot"
    by (simp_all add: t pre_save_def payout_Transaction_def Let_def)
  have d3: "d3 = d2" using failure by (rule provider_call_failure_store)
  let ?tf = "t\<lparr>status := Failed, failure_reason := Some msg\<rparr>"
  have validf: "Transaction_valid ?tf"
    using valid by (simp add: Transaction_valid_def t pre_save_def Let_def)
  have upd: "updateTransaction ?tf d2 =
      Inr (?tf, d2\<lparr>transactions := transactions d @ [?tf]\<rparr>)"
    using validf fresh tid
    by (simp add: updateTransaction_def Transaction_save_def pre_save_False saveTransaction_def
          d2 findTransaction_def replace_first_fresh)
  have nr: "nonneg restored"
    using w(3) tot(2,3) by (simp add: nonneg_def restored dadd_nonneg dsub_nonneg)
  have add: "addFunds debited tot = Inr restored"
    using nr by (simp add: addFunds_def Wallet_save_def debited restored)
  have found2: "find ?P (replace_first ?P debited (wallets d)) = Some debited"
    using w(1) wid unfolding findWallet_def by (intro find_replace_first) auto
  have wr2: "debited\<lparr>balances := write_balances (balances debited) (balances restored)
                                  (balances debited)\<rparr> = restored"
    by (simp add: write_balances_loaded debited restored)
  have save2: "saveWallet debited restored (d2\<lparr>transactions := transactions d @ [?tf]\<rparr>) =
      d\<lparr>wallets := replace_first ?P restored (wallets d),
        transactions := transactions d @ [?tf]\<rparr>"
    using found2 wid wr2
    by (simp add: saveWallet_def d2 update_first_find replace_first_twice)
  have failed: "payout_failed debited t tot msg d2 =
      ((400, ''Payout processing failed''),
       d\<lparr>wallets := replace_first ?P restored (wallets d),
         transactions := transactions d @ [?tf]\<rparr>)"
    using upd add save2 by (simp add: payout_failed_def)
  have result: "createPayout userId uuid mpesaReply body d =
      ((400, ''Payout processing failed''),
       d\<lparr>wallets := replace_first ?P restored (wallets d),
         transactions := transactions d @ [?tf]\<rparr>)"
    using debit failure d3 failed by (simp add: createPayout_def payout_settle_def)
  have same: "dadd (dsub (available (balances w)) tot) tot = available (balances w) \<longrightarrow>
      wallets (snd (createPayout userId uuid mpesaReply body d)) = wallets d"
  proof
    assume "dadd (dsub (available (balances w)) tot) tot = available (balances w)"
    then have "restored = w" by (simp add: restored)
    then show "wallets (snd (createPayout userId uuid mpesaReply body d)) = wallets d"
      using result w(1) by (simp add: findWallet_def replace_first_same)
  qed
  show ?thesis using debit st result same by (simp add: restored)
qed

theorem payout_failure_compensated_witness:
  "findWallet ''A'' (wallets db0) = Some walletA
 \<and> available (balances walletA) = 15000
 \<and> payout_debit ''payer'' ''p1'' payout0 db0 =
      Inr (dest_of ''mpesa'' \<lparr>phone := Some ''254700000000''\<rparr>,
           walletA\<lparr>balances := \<lparr>available = 13985, locked = 0, pending = 0\<rparr>\<rparr>,
           payout_txn Pending None, 985, 1015,
           \<lparr>wallets = [walletA\<lparr>balances := \<lparr>available = 13985, locked = 0, pending = 0\<rparr>\<rparr>, walletB],
            transactions = [payout_txn Pending None], escrows = []\<rparr>)
 \<and> createPayout ''payer'' ''p1'' None payout0 db0 =
      ((400, ''Payout processing failed''),
       \<lparr>wallets = [walletA, walletB],
        transactions = [payout_txn Failed (Some ''M-Pesa payout failed'')], escrows = []\<rparr>)"
proof -
  let ?dst = "dest_of ''mpesa'' \<lparr>phone := Some ''254700000000''\<rparr>"
  let ?debited = "walletA\<lparr>balances := \<lparr>available = 13985, locked = 0, pending = 0\<rparr>\<rparr>"
  let ?d2 = "\<lparr>wallets = [?debited, walletB], transactions = [payout_txn Pending None],
              escrows = []\<rparr>"
  have h: "cp_source_wallet_id payout0 = Some ''A''" "''A'' \<noteq> []"
    "cp_destination payout0 = Some ?dst"
    "dest_type ?dst \<in> {''mpesa'', ''bank'', ''wallet''}" "dest_bank_account ?dst = None"
    "cp_amount payout0 \<noteq> 0"
    "''KES'' = (case cp_currency payout0 of None \<Rightarrow> ''KES'' | Some c \<Rightarrow> c)" "''KES'' \<noteq> []"
    "findWallet ''A'' (wallets db0) = Some walletA" "owner_id walletA = ''payer''"
    "nonneg walletA"
    "findTransaction (''payout_'' @ ''p1'') (transactions db0) = None"
    by (simp_all add: payout0_def dest_of_def db0_def walletA_def findWallet_def
          findTransaction_def nonneg_def)
  have v: "15 = fee (selectPaymentRail_double ?dst (cp_amount payout0) ''KES'')"
    "1015 = dadd (cp_amount payout0) 15" "(0::rat) \<le> 1015" "1015 \<le> available (balances walletA)"
    "payout_txn Pending None =
       pre_save True (payout_Transaction (''payout_'' @ ''p1'') ''A'' ?dst ''KES'' 15
                        (dsub (cp_amount payout0) 15) 1015)"
    "?debited = walletA\<lparr>balances := (balances walletA)
                     \<lparr>available := dsub (available (balances walletA)) 1015\<rparr>\<rparr>"
    "?d2 = db0\<lparr>wallets := replace_first (\<lambda>x. wallet_id x = ''A'') ?debited (wallets db0),
                     transactions := transactions db0 @ [payout_txn Pending None]\<rparr>"
    "provider_call ?dst (dsub (cp_amount payout0) 15) None ?d2 = (Inl ''M-Pesa payout failed'', ?d2)"
    "walletA = walletA\<lparr>balances := (balances walletA)
                     \<lparr>available := dadd (dsub (available (balances walletA)) 1015) 1015\<rparr>\<rparr>"
    "dsub (cp_amount payout0) 15 = 985"
    "db0\<lparr>wallets := replace_first (\<lambda>x. wallet_id x = ''A'') walletA (wallets db0),
          transactions := transactions db0 @
            [(payout_txn Pending None)\<lparr>status := Failed,
                                        failure_reason := Some ''M-Pesa payout failed''\<rparr>]\<rparr> =
       \<lparr>wallets = [walletA, walletB],
        transactions = [payout_txn Failed (Some ''M-Pesa payout failed'')], escrows = []\<rparr>"
    "available (balances walletA) = 15000"
    by code_simp+
  note inst = payout_failure_compensated [where userId = "''payer''" and mpesaReply = None,
      OF h(1-12) v(1-9)]
  show ?thesis using inst h(9) v(10-12) by simp
qed


end
